theory Spec2Isabelle
  imports Complex_Main "HOL-Library.Sublist" "HOL-Library.Multiset"
begin

section \<open>Frame-importance training script: data model\<close>

text \<open>
  The script \<^verbatim>\<open>scripts/ModelTraining/train_frame_importance.py\<close> loads a table of
  frames (or synthesises one), splits it, fits a regressor, prints a report and writes the
  fitted model to disk. Python floats are modelled as \<^typ>\<open>real\<close>; exceptions are values
  of the type \<open>error\<close>; the numpy generator, the file system and the standard output are
  explicit state.
\<close>

datatype error =
    FileNotFoundError
  | IsADirectoryError
  | NotADirectoryError
  | FileExistsError
  | KeyError "string list"
  | ValueError string
  | ParserError string
  | ModuleNotFoundError string

text \<open>A cell of a table: pandas columns of the script hold integers, floats or booleans;
  a parsed CSV may also hold text.\<close>

datatype cell = IntC int | FloatC real | BoolC bool | StrC string

text \<open>A \<^verbatim>\<open>DataFrame\<close>: its columns in order, each a name and the column's cells.\<close>

type_synonym dataframe = "(string \<times> cell list) list"

definition columns :: "dataframe \<Rightarrow> string list" where
  "columns df = map fst df"

text \<open>\<^verbatim>\<open>len(df)\<close>: the number of rows.\<close>

fun n_rows :: "dataframe \<Rightarrow> nat" where
  "n_rows [] = 0"
| "n_rows ((c, col) # df) = length col"

text \<open>\<^verbatim>\<open>df[name]\<close>: one column, or \<^verbatim>\<open>KeyError\<close>.\<close>

definition df_getitem :: "dataframe \<Rightarrow> string \<Rightarrow> error + cell list" where
  "df_getitem df name =
     (case map_of df name of None \<Rightarrow> Inl (KeyError [name]) | Some col \<Rightarrow> Inr col)"

text \<open>\<^verbatim>\<open>df[names]\<close>: the named columns in the order asked for, or \<^verbatim>\<open>KeyError\<close>
  with the names that are missing.\<close>

definition df_getitem_list :: "dataframe \<Rightarrow> string list \<Rightarrow> error + dataframe" where
  "df_getitem_list df names =
     (case filter (\<lambda>c. map_of df c = None) names of
        [] \<Rightarrow> Inr (List.map_filter (\<lambda>c. map_option (Pair c) (map_of df c)) names)
      | missing \<Rightarrow> Inl (KeyError missing))"

section \<open>The numpy generator\<close>

text \<open>
  \<^verbatim>\<open>numpy.random\<close> is a library: its bit generator is a parameter, a record of the
  primitive draws over an abstract generator state \<open>'s\<close>. \<open>seed_state n\<close> is the state
  that \<^verbatim>\<open>np.random.seed(n)\<close> (and \<^verbatim>\<open>RandomState(n)\<close>) installs; \<open>random_sample\<close> draws
  a double of \<open>[0, 1)\<close>, \<open>gauss\<close> a standard normal deviate, \<open>random_interval m\<close> an
  integer of \<open>0..m\<close>.
\<close>

record 's generator =
  seed_state :: "nat \<Rightarrow> 's"
  random_sample :: "'s \<Rightarrow> real \<times> 's"
  gauss :: "'s \<Rightarrow> real \<times> 's"
  random_interval :: "nat \<Rightarrow> 's \<Rightarrow> nat \<times> 's"

text \<open>Filling an array of \<open>n\<close> elements: one draw after the other.\<close>

fun draw :: "('s \<Rightarrow> 'a \<times> 's) \<Rightarrow> nat \<Rightarrow> 's \<Rightarrow> 'a list \<times> 's" where
  "draw f 0 s = ([], s)"
| "draw f (Suc n) s =
     (case f s of (x, s1) \<Rightarrow> (case draw f n s1 of (xs, s2) \<Rightarrow> (x # xs, s2)))"

text \<open>\<^verbatim>\<open>np.random.uniform(low, high, n)\<close>: \<open>low + (high - low) * u\<close> per element.\<close>

definition np_random_uniform ::
  "'s generator \<Rightarrow> real \<Rightarrow> real \<Rightarrow> nat \<Rightarrow> 's \<Rightarrow> real list \<times> 's" where
  "np_random_uniform g low high n s =
     draw (\<lambda>s. case random_sample g s of (u, s') \<Rightarrow> (low + (high - low) * u, s')) n s"

text \<open>\<^verbatim>\<open>np.random.normal(loc, scale, n)\<close>: \<open>loc + scale * z\<close> per element.\<close>

definition np_random_normal ::
  "'s generator \<Rightarrow> real \<Rightarrow> real \<Rightarrow> nat \<Rightarrow> 's \<Rightarrow> real list \<times> 's" where
  "np_random_normal g loc scale n s =
     draw (\<lambda>s. case gauss g s of (z, s') \<Rightarrow> (loc + scale * z, s')) n s"

text \<open>\<^verbatim>\<open>np.random.choice(a, n)\<close>: an index below \<open>len(a)\<close> per element, read from
  \<open>a\<close>. The generator's index is within \<open>0..len(a) - 1\<close>; the model reduces it modulo
  \<open>len(a)\<close>, which leaves such an index as it is.\<close>

definition np_random_choice ::
  "'s generator \<Rightarrow> 'a list \<Rightarrow> nat \<Rightarrow> 's \<Rightarrow> 'a list \<times> 's" where
  "np_random_choice g a n s =
     draw (\<lambda>s. case random_interval g (length a - 1) s of
                  (j, s') \<Rightarrow> (a ! (j mod length a), s')) n s"

section \<open>Synthetic data\<close>

definition n_samples :: nat where
  "n_samples = 1000"

text \<open>\<^verbatim>\<open>np.clip(x, lo, hi)\<close> on one element.\<close>

definition np_clip :: "real \<Rightarrow> real \<Rightarrow> real \<Rightarrow> real" where
  "np_clip x lo hi = min (max x lo) hi"

text \<open>The arrays that \<^verbatim>\<open>create_sample_data\<close> draws, in the order of its calls to the
  generator: the seed is set first, the noise is drawn last.\<close>

record 's sample_arrays =
  Timestamp :: "real list"
  IsKeyFrame :: "bool list"
  VisualComplexity :: "real list"
  ColorVariance :: "real list"
  EdgeDensity :: "real list"
  Brightness :: "real list"
  Contrast :: "real list"
  noise :: "real list"
  final_state :: 's

definition draw_sample_arrays :: "'s generator \<Rightarrow> 's \<Rightarrow> 's sample_arrays" where
  "draw_sample_arrays g s =
     (let s0 = seed_state g 42;
          (ts, s1) = np_random_uniform g 0 300 n_samples s0;
          (kf, s2) = np_random_choice g [True, False] n_samples s1;
          (vc, s3) = np_random_uniform g 0.3 0.9 n_samples s2;
          (cv, s4) = np_random_uniform g 0.2 0.8 n_samples s3;
          (ed, s5) = np_random_uniform g 0.1 0.9 n_samples s4;
          (br, s6) = np_random_uniform g 0.2 0.9 n_samples s5;
          (co, s7) = np_random_uniform g 0.3 0.8 n_samples s6;
          (nz, s8) = np_random_normal g 0 0.05 n_samples s7
      in \<lparr> Timestamp = ts, IsKeyFrame = kf, VisualComplexity = vc, ColorVariance = cv,
           EdgeDensity = ed, Brightness = br, Contrast = co, noise = nz,
           final_state = s8 \<rparr>)"

text \<open>The element-wise arithmetic of lines 78 to 93 at row \<open>i\<close>: the weighted sum, then
  the key-frame bonus, then the noise, then the clip.\<close>

definition importance_at :: "'s sample_arrays \<Rightarrow> nat \<Rightarrow> real" where
  "importance_at a i =
     (let importance =
            VisualComplexity a ! i * 0.3 +
            EdgeDensity a ! i * 0.25 +
            Contrast a ! i * 0.2 +
            ColorVariance a ! i * 0.15 +
            \<bar>Brightness a ! i - 0.5\<bar> * 0.1;
          importance = importance + (if IsKeyFrame a ! i then 0.15 else 0);
          importance = importance + noise a ! i
      in np_clip importance 0 1)"

definition ImportanceScore :: "'s sample_arrays \<Rightarrow> real list" where
  "ImportanceScore a = map (importance_at a) [0..<n_samples]"

text \<open>\<^verbatim>\<open>create_sample_data\<close>: the table of the drawn arrays, with the frame index, the
  constant aspect ratio and the score, and the generator state left behind. The state
  \<open>s\<close> is the global generator's state when the function is called.\<close>

definition create_sample_data :: "'s generator \<Rightarrow> 's \<Rightarrow> dataframe \<times> 's" where
  "create_sample_data g s =
     (let a = draw_sample_arrays g s
      in ([(''FrameIndex'', map (\<lambda>i. IntC (int i)) [0..<n_samples]),
           (''Timestamp'', map FloatC (Timestamp a)),
           (''IsKeyFrame'', map BoolC (IsKeyFrame a)),
           (''VisualComplexity'', map FloatC (VisualComplexity a)),
           (''ColorVariance'', map FloatC (ColorVariance a)),
           (''EdgeDensity'', map FloatC (EdgeDensity a)),
           (''Brightness'', map FloatC (Brightness a)),
           (''Contrast'', map FloatC (Contrast a)),
           (''AspectRatio'', replicate n_samples (FloatC 1.778)),
           (''ImportanceScore'', map FloatC (ImportanceScore a))],
          final_state a))"

section \<open>Standard output and process outcome\<close>

text \<open>A printed line. The text of a formatted number is not modelled: a line that
  prints one keeps the number beside its label.\<close>

datatype out_line =
    Text string
  | Count string nat string  \<comment> \<open>label, integer, rest of the line\<close>
  | Fmt4 string real  \<comment> \<open>label, then the value printed with four decimals\<close>
  | Names string "string list"  \<comment> \<open>label, then a list of names\<close>

text \<open>How the process ends: \<^verbatim>\<open>sys.exit(n)\<close> or the end of the script (status 0), or
  an exception nobody caught, for which the interpreter prints a traceback and exits
  with status 1.\<close>

datatype outcome = Exit nat | Uncaught error

fun exit_status :: "outcome \<Rightarrow> nat" where
  "exit_status (Exit n) = n"
| "exit_status (Uncaught e) = 1"

section \<open>The file system\<close>

text \<open>A path is the list of its components below the directory it is resolved against,
  which always exists; \<open>[]\<close> is that directory itself. A path with no entry is missing.\<close>

type_synonym path = "string list"

datatype node = Dir | File string

type_synonym filesystem = "path \<Rightarrow> node option"

definition node_at :: "filesystem \<Rightarrow> path \<Rightarrow> node option" where
  "node_at fs p = (if p = [] then Some Dir else fs p)"

text \<open>\<^verbatim>\<open>Path.parent\<close>; the parent of the anchor is the anchor.\<close>

definition parent :: "path \<Rightarrow> path" where
  "parent p = butlast p"

definition is_dir :: "filesystem \<Rightarrow> path \<Rightarrow> bool" where
  "is_dir fs p = (node_at fs p = Some Dir)"

fun path_str :: "path \<Rightarrow> string" where
  "path_str [] = ''.''"
| "path_str [c] = c"
| "path_str (c # cs) = c @ ''/'' @ path_str cs"

text \<open>\<^verbatim>\<open>os.mkdir\<close>: the parent must be a directory and the path must be free.\<close>

definition os_mkdir :: "filesystem \<Rightarrow> path \<Rightarrow> error + filesystem" where
  "os_mkdir fs p =
     (case node_at fs (parent p) of
        None \<Rightarrow> Inl FileNotFoundError
      | Some (File b) \<Rightarrow> Inl NotADirectoryError
      | Some Dir \<Rightarrow>
          (case node_at fs p of
             None \<Rightarrow> Inr (fs(p \<mapsto> Dir))
           | Some n \<Rightarrow> Inl FileExistsError))"

text \<open>\<^verbatim>\<open>Path.mkdir(parents, exist_ok)\<close> of \<^verbatim>\<open>pathlib\<close>: a missing parent is created
  first when \<open>parents\<close> is set; any other error is dropped when \<open>exist_ok\<close> is set and
  the path is a directory. The result is the exception raised, if any, and the file
  system left behind (a parent created before a failure stays).\<close>

function mkdir :: "filesystem \<Rightarrow> path \<Rightarrow> bool \<Rightarrow> bool \<Rightarrow> error option \<times> filesystem" where
  "mkdir fs p parents exist_ok =
     (case os_mkdir fs p of
        Inr fs' \<Rightarrow> (None, fs')
      | Inl e \<Rightarrow>
          if e = FileNotFoundError then
            (if \<not> parents \<or> parent p = p then (Some e, fs)
             else (case mkdir fs (parent p) True True of
                     (Some e', fs1) \<Rightarrow> (Some e', fs1)
                   | (None, fs1) \<Rightarrow> mkdir fs1 p False exist_ok))
          else if \<not> exist_ok \<or> \<not> is_dir fs p then (Some e, fs)
          else (None, fs))"
  by pat_completeness auto
termination
  by (relation "measure (\<lambda>(fs, p, parents, exist_ok). 2 * length p + (if parents then 1 else 0))")
     (auto simp: parent_def butlast_conv_take not_less)

declare mkdir.simps [simp del]

text \<open>Opening a path for writing and writing \<open>b\<close>: the parent must be a directory and
  the path must not be one; an existing file is replaced.\<close>

definition write_file :: "filesystem \<Rightarrow> path \<Rightarrow> string \<Rightarrow> error + filesystem" where
  "write_file fs p b =
     (case node_at fs (parent p) of
        None \<Rightarrow> Inl FileNotFoundError
      | Some (File b') \<Rightarrow> Inl NotADirectoryError
      | Some Dir \<Rightarrow>
          (case node_at fs p of
             Some Dir \<Rightarrow> Inl IsADirectoryError
           | _ \<Rightarrow> Inr (fs(p \<mapsto> File b))))"

text \<open>Opening a path for reading: its contents.\<close>

definition read_file :: "filesystem \<Rightarrow> path \<Rightarrow> error + string" where
  "read_file fs p =
     (case node_at fs p of
        None \<Rightarrow> Inl FileNotFoundError
      | Some Dir \<Rightarrow> Inl IsADirectoryError
      | Some (File b) \<Rightarrow> Inr b)"

section \<open>Data loader\<close>

text \<open>The libraries the script calls and the repository does not hold are a parameter:
  the CSV parser of pandas (from a file's contents to a table), the regressor of
  scikit-learn with its metrics, and the bytes joblib pickles a fitted model to. A
  failing \<open>fit\<close> returns the message of its \<^verbatim>\<open>ValueError\<close>.\<close>

record 'm libraries =
  parse_csv :: "string \<Rightarrow> error + dataframe"
  fit :: "dataframe \<Rightarrow> cell list \<Rightarrow> string + 'm"
  predict :: "'m \<Rightarrow> dataframe \<Rightarrow> real list"
  mean_squared_error :: "cell list \<Rightarrow> real list \<Rightarrow> real"
  r2_score :: "cell list \<Rightarrow> real list \<Rightarrow> real"
  feature_importances :: "'m \<Rightarrow> real list"
  pickle_body :: "'m \<Rightarrow> string"

text \<open>\<^verbatim>\<open>pd.read_csv(path)\<close>: open the file, then parse it.\<close>

definition read_csv :: "'m libraries \<Rightarrow> filesystem \<Rightarrow> path \<Rightarrow> error + dataframe" where
  "read_csv L fs p =
     (case read_file fs p of Inl e \<Rightarrow> Inl e | Inr b \<Rightarrow> parse_csv L b)"

definition feature_columns :: "string list" where
  "feature_columns =
     [''VisualComplexity'', ''ColorVariance'', ''EdgeDensity'',
      ''Brightness'', ''Contrast'', ''AspectRatio'']"

text \<open>\<^verbatim>\<open>load_training_data\<close>: what it prints, what it returns or raises, and the state
  of the global generator afterwards.\<close>

definition load_training_data ::
  "'m libraries \<Rightarrow> 's generator \<Rightarrow> filesystem \<Rightarrow> path \<Rightarrow> 's \<Rightarrow>
     out_line list \<times> (error + dataframe \<times> cell list) \<times> 's" where
  "load_training_data L g fs data_path s =
     (let out0 = [Text (''Loading training data from '' @ path_str data_path @ ''...'')];
          (out1, r, s1) =
            (case read_csv L fs data_path of
               Inr df \<Rightarrow> (out0, Inr df, s)
             | Inl e \<Rightarrow>
                 if e = FileNotFoundError then
                   (case create_sample_data g s of
                      (df, s') \<Rightarrow>
                        (out0 @
                           [Text (''Error: Training data file not found: '' @ path_str data_path),
                            Text ''Creating sample training data...''],
                         Inr df, s'))
                 else (out0, Inl e, s))
      in case r of
           Inl e \<Rightarrow> (out1, Inl e, s1)
         | Inr df \<Rightarrow>
             (case df_getitem_list df feature_columns of
                Inl e \<Rightarrow> (out1, Inl e, s1)
              | Inr X \<Rightarrow>
                  (case df_getitem df ''ImportanceScore'' of
                     Inl e \<Rightarrow> (out1, Inl e, s1)
                   | Inr y \<Rightarrow> (out1, Inr (X, y), s1))))"

section \<open>Splitter\<close>

text \<open>\<^verbatim>\<open>train_test_split\<close> is scikit-learn's. Its sizes follow
  \<^verbatim>\<open>_validate_shuffle_split\<close> for a float \<open>test_size\<close> and no \<open>train_size\<close>: the
  fraction must lie strictly between 0 and 1, the test part has
  \<open>ceil(test_size * n_samples)\<close> rows, the train part the rest, which must not be
  empty.\<close>

definition validate_shuffle_split :: "nat \<Rightarrow> real \<Rightarrow> error + nat \<times> nat" where
  "validate_shuffle_split n test_size =
     (if test_size \<le> 0 \<or> test_size \<ge> 1 then
        Inl (ValueError ''test_size should be a float in the (0, 1) range'')
      else
        (let n_test = \<lceil>test_size * real n\<rceil>;
             n_train = int n - n_test
         in if n_train + n_test > int n then
              Inl (ValueError ''The sum of train_size and test_size should be smaller than the number of samples'')
            else if n_train = 0 then
              Inl (ValueError ''the resulting train set will be empty'')
            else Inr (nat n_train, nat n_test)))"

text \<open>\<^verbatim>\<open>RandomState.permutation(n)\<close>: \<open>arange(n)\<close> shuffled in place, from the last
  position down to the second, each swapped with a position drawn at or below it.\<close>

definition swap :: "'a list \<Rightarrow> nat \<Rightarrow> nat \<Rightarrow> 'a list" where
  "swap xs i j = xs[i := xs ! j, j := xs ! i]"

fun shuffle :: "'s generator \<Rightarrow> nat \<Rightarrow> nat list \<Rightarrow> 's \<Rightarrow> nat list \<times> 's" where
  "shuffle g 0 xs s = (xs, s)"
| "shuffle g (Suc i) xs s =
     (case random_interval g (Suc i) s of
        (j, s') \<Rightarrow> shuffle g i (swap xs (Suc i) (j mod Suc (Suc i))) s')"

definition permutation :: "'s generator \<Rightarrow> nat \<Rightarrow> 's \<Rightarrow> nat list \<times> 's" where
  "permutation g n s = shuffle g (n - 1) [0..<n] s"

text \<open>Row selection by position, \<^verbatim>\<open>X.iloc[idx]\<close> and \<^verbatim>\<open>y.iloc[idx]\<close>.\<close>

definition iloc :: "dataframe \<Rightarrow> nat list \<Rightarrow> dataframe" where
  "iloc df idx = map (\<lambda>(c, col). (c, map (\<lambda>i. col ! i) idx)) df"

definition iloc_series :: "cell list \<Rightarrow> nat list \<Rightarrow> cell list" where
  "iloc_series y idx = map (\<lambda>i. y ! i) idx"

text \<open>\<^verbatim>\<open>train_test_split(X, y, test_size=test_size, random_state=seed)\<close>: the two arrays
  must have one length; the permutation comes from a generator of its own, seeded with
  \<open>seed\<close>; its first \<open>n_test\<close> positions are the test rows, the next \<open>n_train\<close> the
  train rows. The result is \<open>(X_train, X_test, y_train, y_test)\<close>.\<close>

definition train_test_split ::
  "'s generator \<Rightarrow> dataframe \<Rightarrow> cell list \<Rightarrow> real \<Rightarrow> nat \<Rightarrow>
     error + dataframe \<times> dataframe \<times> cell list \<times> cell list" where
  "train_test_split g X y test_size seed =
     (if n_rows X \<noteq> length y then
        Inl (ValueError ''Found input variables with inconsistent numbers of samples'')
      else
        (case validate_shuffle_split (n_rows X) test_size of
           Inl e \<Rightarrow> Inl e
         | Inr (n_train, n_test) \<Rightarrow>
             (let perm = fst (permutation g (n_rows X) (seed_state g seed));
                  ind_test = take n_test perm;
                  ind_train = take n_train (drop n_test perm)
              in Inr (iloc X ind_train, iloc X ind_test,
                      iloc_series y ind_train, iloc_series y ind_test))))"

section \<open>Trainer\<close>

text \<open>\<^verbatim>\<open>sorted(xs, key=key, reverse=True)\<close>: descending by key, equal keys in their
  original order.\<close>

definition sorted_reverse :: "('a \<Rightarrow> real) \<Rightarrow> 'a list \<Rightarrow> 'a list" where
  "sorted_reverse key xs = rev (sort_key key (rev xs))"

text \<open>\<^verbatim>\<open>f"{name:20s}"\<close>: the name padded with spaces to twenty characters.\<close>

definition pad20 :: "string \<Rightarrow> string" where
  "pad20 name = name @ replicate (20 - length name) CHR '' ''"

text \<open>The feature-importance report of \<^verbatim>\<open>train_model\<close>: the pairs of lines 133 to
  134, in the order they are printed. In the labels of the metric lines the
  superscript two of the source is written \<open>2\<close>.\<close>

definition importance_report :: "string list \<Rightarrow> real list \<Rightarrow> (string \<times> real) list" where
  "importance_report feature_names importances =
     sorted_reverse snd (zip feature_names importances)"

definition train_model ::
  "'m libraries \<Rightarrow> dataframe \<Rightarrow> cell list \<Rightarrow> dataframe \<Rightarrow> cell list \<Rightarrow>
     out_line list \<times> (error + 'm)" where
  "train_model L X_train y_train X_test y_test =
     (let out0 = [Text ''Training Random Forest model...'']
      in case fit L X_train y_train of
           Inl msg \<Rightarrow> (out0, Inl (ValueError msg))
         | Inr model \<Rightarrow>
             (let train_pred = predict L model X_train;
                  test_pred = predict L model X_test;
                  train_mse = mean_squared_error L y_train train_pred;
                  test_mse = mean_squared_error L y_test test_pred;
                  train_r2 = r2_score L y_train train_pred;
                  test_r2 = r2_score L y_test test_pred;
                  feature_names = columns X_train;
                  importances = feature_importances L model
              in (out0 @
                    [Text [], Text ''Training Results:'',
                     Fmt4 ''  Train MSE: '' train_mse,
                     Fmt4 ''  Test MSE:  '' test_mse,
                     Fmt4 ''  Train R2:  '' train_r2,
                     Fmt4 ''  Test R2:   '' test_r2,
                     Text [], Text ''Feature Importances:''] @
                    map (\<lambda>(name, importance). Fmt4 (''  '' @ pad20 name @ '': '') importance)
                      (importance_report feature_names importances),
                  Inr model)))"

section \<open>Persister\<close>

text \<open>\<^verbatim>\<open>joblib.dump(model, path)\<close> opens the path for writing and pickles the model
  into it: the \<^verbatim>\<open>PROTO\<close> opcode and the protocol number, the frames of the object, the
  \<^verbatim>\<open>STOP\<close> opcode.\<close>

definition pickled :: "'m libraries \<Rightarrow> 'm \<Rightarrow> string" where
  "pickled L model = [CHR 0x80, CHR 0x04] @ pickle_body L model @ ''.''"

definition joblib_dump :: "'m libraries \<Rightarrow> filesystem \<Rightarrow> 'm \<Rightarrow> path \<Rightarrow> error + filesystem" where
  "joblib_dump L fs model p = write_file fs p (pickled L model)"

definition save_model ::
  "'m libraries \<Rightarrow> filesystem \<Rightarrow> 'm \<Rightarrow> path \<Rightarrow> out_line list \<times> error option \<times> filesystem" where
  "save_model L fs model output_path =
     (case mkdir fs (parent output_path) True True of
        (Some e, fs1) \<Rightarrow> ([], Some e, fs1)
      | (None, fs1) \<Rightarrow>
          (case joblib_dump L fs1 model output_path of
             Inl e \<Rightarrow> ([], Some e, fs1)
           | Inr fs2 \<Rightarrow>
               ([Text [], Text (''Model saved to: '' @ path_str output_path)], None, fs2)))"

section \<open>The script\<close>

text \<open>The parsed command line.\<close>

record args =
  data_path :: path
  output_path :: path
  test_size :: real

definition default_args :: args where
  "default_args =
     \<lparr> data_path = [''training-data'', ''frames.csv''],
       output_path = [''models'', ''frame-importance-model.pkl''],
       test_size = 0.2 \<rparr>"

definition rule60 :: out_line where
  "rule60 = Text (replicate 60 CHR ''='')"

text \<open>\<^verbatim>\<open>main\<close>: the lines printed, how the process ends, and the file system left
  behind. \<open>s\<close> is the state of the global generator when the script starts.\<close>

definition main ::
  "'m libraries \<Rightarrow> 's generator \<Rightarrow> args \<Rightarrow> filesystem \<Rightarrow> 's \<Rightarrow>
     out_line list \<times> outcome \<times> filesystem" where
  "main L g a fs s =
     (let out0 = [rule60, Text ''Frame Importance Model Training'', rule60]
      in case load_training_data L g fs (data_path a) s of
           (out1, Inl e, s1) \<Rightarrow> (out0 @ out1, Uncaught e, fs)
         | (out1, Inr (X, y), s1) \<Rightarrow>
             (let out2 = out0 @ out1 @
                    [Count ''Dataset size: '' (n_rows X) '' samples'',
                     Names ''Features: '' (columns X)]
              in case train_test_split g X y (test_size a) 42 of
                   Inl e \<Rightarrow> (out2, Uncaught e, fs)
                 | Inr (X_train, X_test, y_train, y_test) \<Rightarrow>
                     (let out3 = out2 @
                            [Count ''Training set: '' (n_rows X_train) '' samples'',
                             Count ''Test set: '' (n_rows X_test) '' samples'']
                      in case train_model L X_train y_train X_test y_test of
                           (out4, Inl e) \<Rightarrow> (out3 @ out4, Uncaught e, fs)
                         | (out4, Inr model) \<Rightarrow>
                             (case save_model L fs model (output_path a) of
                                (out5, Some e, fs') \<Rightarrow> (out3 @ out4 @ out5, Uncaught e, fs')
                              | (out5, None, fs') \<Rightarrow>
                                  (out3 @ out4 @ out5 @
                                     [Text [], rule60, Text ''Training complete!'', rule60],
                                   Exit 0, fs')))))"

text \<open>The imports at the head of the module, against the set of installed packages:
  \<^verbatim>\<open>pandas\<close> and \<^verbatim>\<open>numpy\<close> are imported first, outside the \<^verbatim>\<open>try\<close>; the
  scikit-learn modules and \<^verbatim>\<open>joblib\<close> inside it. The modules of the standard library
  (\<^verbatim>\<open>argparse\<close>, \<^verbatim>\<open>sys\<close>, \<^verbatim>\<open>pathlib\<close>) are always there. The result is what was
  printed and, when the script stops there, how.\<close>

definition import_module :: "string set \<Rightarrow> string \<Rightarrow> error + unit" where
  "import_module installed name =
     (if name \<in> installed then Inr () else Inl (ModuleNotFoundError name))"

definition module_imports :: "string set \<Rightarrow> out_line list \<times> outcome option" where
  "module_imports installed =
     (case import_module installed ''pandas'' of
        Inl e \<Rightarrow> ([], Some (Uncaught e))
      | Inr _ \<Rightarrow>
     (case import_module installed ''numpy'' of
        Inl e \<Rightarrow> ([], Some (Uncaught e))
      | Inr _ \<Rightarrow>
     (case (case import_module installed ''sklearn'' of
              Inl e \<Rightarrow> Inl e
            | Inr _ \<Rightarrow> import_module installed ''joblib'') of
        Inl e \<Rightarrow>
          ([Text ''Error: Required packages not installed.'',
            Text ''Install with: pip install scikit-learn pandas numpy joblib''],
           Some (Exit 1))
      | Inr _ \<Rightarrow> ([], None))))"

text \<open>One run of the script: the imports, then \<^verbatim>\<open>main()\<close>.\<close>

definition script ::
  "string set \<Rightarrow> 'm libraries \<Rightarrow> 's generator \<Rightarrow> args \<Rightarrow> filesystem \<Rightarrow> 's \<Rightarrow>
     out_line list \<times> outcome \<times> filesystem" where
  "script installed L g a fs s =
     (case module_imports installed of
        (out, Some oc) \<Rightarrow> (out, oc, fs)
      | (out, None) \<Rightarrow>
          (case main L g a fs s of (out', oc, fs') \<Rightarrow> (out @ out', oc, fs')))"

section \<open>Conditions on the file system\<close>

text \<open>No entry on the way to \<open>d\<close>, and not \<open>d\<close> itself, is a regular file: every
  ancestor is a directory or is missing.\<close>

fun is_file :: "node option \<Rightarrow> bool" where
  "is_file (Some (File b)) = True"
| "is_file _ = False"

definition creatable :: "filesystem \<Rightarrow> path \<Rightarrow> bool" where
  "creatable fs d = (\<forall>q \<in> set (prefixes d). \<not> is_file (node_at fs q))"

text \<open>Every entry lies in a directory.\<close>

definition well_formed :: "filesystem \<Rightarrow> bool" where
  "well_formed fs = (\<forall>p. fs p \<noteq> None \<longrightarrow> is_dir fs (parent p))"

section \<open>Sizes of a split, and rounding as the specification has it\<close>



section \<open>Worked examples\<close>

text \<open>A small generator, a small table and a small set of libraries, on which the
  theorems below are instantiated.\<close>

definition counter_generator :: "nat generator" where
  "counter_generator =
     \<lparr> seed_state = (\<lambda>n. n),
       random_sample = (\<lambda>s. (real (s mod 10) / 10, Suc s)),
       gauss = (\<lambda>s. (real (s mod 5) - 2, Suc s)),
       random_interval = (\<lambda>m s. (s mod Suc m, Suc s)) \<rparr>"

definition small_table :: dataframe where
  "small_table =
     [(''FrameIndex'', map IntC [0, 1, 2, 3, 4]),
      (''VisualComplexity'', map FloatC [0.5, 0.6, 0.7, 0.8, 0.4]),
      (''ColorVariance'', map FloatC [0.2, 0.3, 0.4, 0.5, 0.6]),
      (''EdgeDensity'', map FloatC [0.1, 0.2, 0.3, 0.4, 0.5]),
      (''Brightness'', map FloatC [0.5, 0.5, 0.6, 0.4, 0.3]),
      (''Contrast'', map FloatC [0.3, 0.4, 0.5, 0.6, 0.7]),
      (''AspectRatio'', map FloatC [1.778, 1.778, 1.778, 1.778, 1.778]),
      (''ImportanceScore'', map FloatC [0.3, 0.4, 0.5, 0.6, 0.5])]"

text \<open>The same table without its frame index and with a new text column.\<close>

definition small_table_other :: dataframe where
  "small_table_other =
     (''Comment'', map StrC [''a'', ''b'', ''c'', ''d'', ''e'']) # tl small_table"

text \<open>The table without its target column.\<close>

definition small_table_no_target :: dataframe where
  "small_table_no_target = butlast small_table"

text \<open>The table without its first feature column.\<close>

definition small_table_no_feature :: dataframe where
  "small_table_no_feature = hd small_table # tl (tl small_table)"

text \<open>Libraries for the examples: the parser knows four file contents, the regressor
  is the number of rows it was fitted on and predicts zero, and none of its trees has a
  split, for which scikit-learn reports the importance 0 for every feature.\<close>

definition example_libraries :: "nat libraries" where
  "example_libraries =
     \<lparr> parse_csv = (\<lambda>b. if b = ''frames'' then Inr small_table
                        else if b = ''other'' then Inr small_table_other
                        else if b = ''no target'' then Inr small_table_no_target
                        else if b = ''no feature'' then Inr small_table_no_feature
                        else Inl (ParserError b)),
       fit = (\<lambda>X y. Inr (n_rows X)),
       predict = (\<lambda>m X. replicate (n_rows X) 0),
       mean_squared_error = (\<lambda>y p. 0),
       r2_score = (\<lambda>y p. 0),
       feature_importances = (\<lambda>m. [0, 0, 0, 0, 0, 0]),
       pickle_body = (\<lambda>m. replicate m CHR ''x'') \<rparr>"

definition example_filesystem :: filesystem where
  "example_filesystem =
     [[''training-data''] \<mapsto> Dir,
      [''training-data'', ''frames.csv''] \<mapsto> File ''frames'',
      [''training-data'', ''other.csv''] \<mapsto> File ''other'',
      [''training-data'', ''no_target.csv''] \<mapsto> File ''no target'',
      [''training-data'', ''no_feature.csv''] \<mapsto> File ''no feature'',
      [''training-data'', ''broken.csv''] \<mapsto> File ''a,b'']"

text \<open>The features and the target of the small table.\<close>

definition small_features :: dataframe where
  "small_features = butlast (tl small_table)"

definition small_target :: "cell list" where
  "small_target = map FloatC [0.3, 0.4, 0.5, 0.6, 0.5]"



section \<open>Properties of the synthetic data\<close>






lemma length_ImportanceScore: "length (ImportanceScore a) = n_samples"
  by (simp add: ImportanceScore_def)

lemma draw_sample_arrays_state: "draw_sample_arrays g s = draw_sample_arrays g s'"
  by (simp add: draw_sample_arrays_def)

lemma noise_is_normal:
  "\<exists>s7. noise (draw_sample_arrays g s) = fst (np_random_normal g 0 0.05 n_samples s7)"
  unfolding draw_sample_arrays_def Let_def
  by (simp add: split_beta) blast

lemma clip_bounds: "lo \<le> hi \<Longrightarrow> lo \<le> np_clip x lo hi \<and> np_clip x lo hi \<le> hi"
  by (simp add: np_clip_def)

lemma sample_columns:
  "columns (fst (create_sample_data g s)) =
     [''FrameIndex'', ''Timestamp'', ''IsKeyFrame'', ''VisualComplexity'', ''ColorVariance'',
      ''EdgeDensity'', ''Brightness'', ''Contrast'', ''AspectRatio'', ''ImportanceScore'']"
  by (simp add: create_sample_data_def columns_def Let_def)

lemma sample_column_values:
  fixes g :: "'s generator"
  defines "df \<equiv> \<lambda>s. fst (create_sample_data g s)"
  defines "a \<equiv> \<lambda>s. draw_sample_arrays g s"
  shows "map_of (df s) ''VisualComplexity'' = Some (map FloatC (VisualComplexity (a s)))"
    and "map_of (df s) ''ColorVariance'' = Some (map FloatC (ColorVariance (a s)))"
    and "map_of (df s) ''EdgeDensity'' = Some (map FloatC (EdgeDensity (a s)))"
    and "map_of (df s) ''Brightness'' = Some (map FloatC (Brightness (a s)))"
    and "map_of (df s) ''Contrast'' = Some (map FloatC (Contrast (a s)))"
    and "map_of (df s) ''AspectRatio'' = Some (replicate n_samples (FloatC 1.778))"
    and "map_of (df s) ''IsKeyFrame'' = Some (map BoolC (IsKeyFrame (a s)))"
    and "map_of (df s) ''ImportanceScore'' = Some (map FloatC (ImportanceScore (a s)))"
  by (simp_all add: df_def a_def create_sample_data_def Let_def)

lemma sample_n_rows: "n_rows (fst (create_sample_data g s)) = n_samples"
  by (simp add: create_sample_data_def Let_def)

lemma sample_features:
  "df_getitem_list (fst (create_sample_data g s)) feature_columns =
     Inr [(''VisualComplexity'', map FloatC (VisualComplexity (draw_sample_arrays g s))),
          (''ColorVariance'', map FloatC (ColorVariance (draw_sample_arrays g s))),
          (''EdgeDensity'', map FloatC (EdgeDensity (draw_sample_arrays g s))),
          (''Brightness'', map FloatC (Brightness (draw_sample_arrays g s))),
          (''Contrast'', map FloatC (Contrast (draw_sample_arrays g s))),
          (''AspectRatio'', replicate n_samples (FloatC 1.778))]"
  by (simp add: df_getitem_list_def feature_columns_def sample_column_values)

lemma sample_target:
  "df_getitem (fst (create_sample_data g s)) ''ImportanceScore'' =
     Inr (map FloatC (ImportanceScore (draw_sample_arrays g s)))"
  by (simp add: df_getitem_def sample_column_values)

text \<open>What the loader returns when the file is missing.\<close>

lemma load_missing:
  assumes "read_csv L fs p = Inl FileNotFoundError"
  shows "load_training_data L g fs p s =
     ([Text (''Loading training data from '' @ path_str p @ ''...''),
       Text (''Error: Training data file not found: '' @ path_str p),
       Text ''Creating sample training data...''],
      Inr ([(''VisualComplexity'', map FloatC (VisualComplexity (draw_sample_arrays g s))),
            (''ColorVariance'', map FloatC (ColorVariance (draw_sample_arrays g s))),
            (''EdgeDensity'', map FloatC (EdgeDensity (draw_sample_arrays g s))),
            (''Brightness'', map FloatC (Brightness (draw_sample_arrays g s))),
            (''Contrast'', map FloatC (Contrast (draw_sample_arrays g s))),
            (''AspectRatio'', replicate n_samples (FloatC 1.778))],
           map FloatC (ImportanceScore (draw_sample_arrays g s))),
      snd (create_sample_data g s))"
proof -
  obtain df s' where c: "create_sample_data g s = (df, s')"
    by (cases "create_sample_data g s")
  have X: "df_getitem_list df feature_columns =
     Inr [(''VisualComplexity'', map FloatC (VisualComplexity (draw_sample_arrays g s))),
          (''ColorVariance'', map FloatC (ColorVariance (draw_sample_arrays g s))),
          (''EdgeDensity'', map FloatC (EdgeDensity (draw_sample_arrays g s))),
          (''Brightness'', map FloatC (Brightness (draw_sample_arrays g s))),
          (''Contrast'', map FloatC (Contrast (draw_sample_arrays g s))),
          (''AspectRatio'', replicate n_samples (FloatC 1.778))]"
    using sample_features [of g s] c by simp
  have y: "df_getitem df ''ImportanceScore'' =
     Inr (map FloatC (ImportanceScore (draw_sample_arrays g s)))"
    using sample_target [of g s] c by simp
  show ?thesis
    unfolding load_training_data_def Let_def
    by (simp add: assms c X y)
qed

section \<open>Properties of the file system operations\<close>

lemma os_mkdir_root: "os_mkdir fs [] = Inl FileExistsError"
  by (simp add: os_mkdir_def node_at_def parent_def)

lemma os_mkdir_Inr:
  "os_mkdir fs p = Inr fs' \<Longrightarrow>
     fs' = fs(p \<mapsto> Dir) \<and> p \<noteq> [] \<and> is_dir fs (parent p) \<and> node_at fs p = None"
  by (auto simp: os_mkdir_def is_dir_def node_at_def split: option.splits node.splits if_splits)


lemma parent_eq_self: "parent p = p \<longleftrightarrow> p = []"
  by (cases p rule: rev_cases) (simp_all add: parent_def)

text \<open>Without \<open>parents\<close>, \<^verbatim>\<open>mkdir\<close> is one call of \<^verbatim>\<open>os.mkdir\<close>.\<close>

lemma mkdir_leaf:
  "mkdir fs p False exist_ok =
     (case os_mkdir fs p of
        Inr fs' \<Rightarrow> (None, fs')
      | Inl e \<Rightarrow> if e \<noteq> FileNotFoundError \<and> exist_ok \<and> is_dir fs p then (None, fs)
                 else (Some e, fs))"
  by (subst mkdir.simps) (auto split: sum.splits)

lemma mkdir_success_is_dir:
  "mkdir fs p parents exist_ok = (None, fs') \<Longrightarrow> is_dir fs' p"
proof (induction fs p parents exist_ok arbitrary: fs' rule: mkdir.induct)
  case (1 fs p parents exist_ok)
  show ?case
  proof (cases "os_mkdir fs p")
    case (Inr fs1)
    with "1.prems" have "fs' = fs1" by (subst (asm) mkdir.simps) simp
    with Inr show ?thesis
      by (auto dest!: os_mkdir_Inr simp: is_dir_def node_at_def)
  next
    case (Inl e)
    show ?thesis
    proof (cases "e = FileNotFoundError")
      case False
      with Inl "1.prems" show ?thesis
        by (subst (asm) mkdir.simps) (auto split: if_splits)
    next
      case True
      with Inl "1.prems" have ok: "parents" "parent p \<noteq> p"
        by (subst (asm) mkdir.simps, auto split: if_splits)+
      from True Inl "1.prems" ok obtain fs1 where
        a: "mkdir fs (parent p) True True = (None, fs1)" and
        b: "mkdir fs1 p False exist_ok = (None, fs')"
        by (subst (asm) mkdir.simps) (auto split: prod.splits option.splits)
      from "1.IH"(2) [OF Inl True _ _ _ b] ok a show ?thesis by simp
    qed
  qed
qed

text \<open>With \<open>parents\<close>, a missing parent is created first.\<close>

lemma mkdir_parents:
  "mkdir fs p True exist_ok =
     (case os_mkdir fs p of
        Inr fs' \<Rightarrow> (None, fs')
      | Inl e \<Rightarrow>
          if e = FileNotFoundError then
            (if p = [] then (Some e, fs)
             else (case mkdir fs (parent p) True True of
                     (Some e', fs1) \<Rightarrow> (Some e', fs1)
                   | (None, fs1) \<Rightarrow> mkdir fs1 p False exist_ok))
          else if exist_ok \<and> is_dir fs p then (None, fs)
          else (Some e, fs))"
  by (subst mkdir.simps) (auto simp: parent_eq_self split: sum.splits)

lemma parent_snoc: "parent (xs @ [x]) = xs"
  by (simp add: parent_def)

lemma os_mkdir_Inl:
  "os_mkdir fs p = Inl e \<Longrightarrow>
     (e = FileNotFoundError \<and> node_at fs (parent p) = None) \<or>
     (e = NotADirectoryError \<and> is_file (node_at fs (parent p))) \<or>
     (e = FileExistsError \<and> is_dir fs (parent p) \<and> node_at fs p \<noteq> None)"
  by (auto simp: os_mkdir_def is_dir_def split: option.splits node.splits)

lemma mkdir_leaf_frame:
  "mkdir fs p False exist_ok = (r, fs') \<Longrightarrow> q \<noteq> p \<Longrightarrow> fs' q = fs q"
  by (auto simp: mkdir_leaf split: sum.splits if_splits dest!: os_mkdir_Inr)

lemma mkdir_frame:
  "mkdir fs p True exist_ok = (r, fs') \<Longrightarrow> \<not> prefix q p \<Longrightarrow> fs' q = fs q"
proof (induction p arbitrary: fs fs' r exist_ok rule: rev_induct)
  case Nil
  then show ?case
    by (auto simp: mkdir_parents os_mkdir_root split: if_splits)
next
  case (snoc x xs)
  have q: "q \<noteq> xs @ [x]" "\<not> prefix q xs"
    using snoc.prems(2) by (auto simp: prefix_order.order_trans)
  show ?case
  proof (cases "os_mkdir fs (xs @ [x])")
    case (Inr fs1)
    with snoc.prems(1) q show ?thesis
      by (auto simp: mkdir_parents dest!: os_mkdir_Inr)
  next
    case (Inl e)
    show ?thesis
    proof (cases "e = FileNotFoundError")
      case False
      with Inl snoc.prems(1) show ?thesis
        by (auto simp: mkdir_parents split: if_splits)
    next
      case True
      obtain r1 fs1 where m1: "mkdir fs xs True True = (r1, fs1)"
        by (cases "mkdir fs xs True True")
      have f1: "fs1 q = fs q" using snoc.IH [OF m1 q(2)] .
      show ?thesis
      proof (cases r1)
        case (Some e')
        with Inl True m1 snoc.prems(1) f1 show ?thesis
          by (auto simp: mkdir_parents parent_snoc)
      next
        case None
        with Inl True m1 snoc.prems(1) have "mkdir fs1 (xs @ [x]) False exist_ok = (r, fs')"
          by (auto simp: mkdir_parents parent_snoc)
        from mkdir_leaf_frame [OF this q(1)] f1 show ?thesis by simp
      qed
    qed
  qed
qed


lemma creatable_snoc: "creatable fs (xs @ [x]) \<Longrightarrow> creatable fs xs"
  by (simp add: creatable_def)

lemma creatable_self: "creatable fs d \<Longrightarrow> \<not> is_file (node_at fs d)"
  by (simp add: creatable_def)

lemma not_file_cases: "\<not> is_file n \<Longrightarrow> n = None \<or> n = Some Dir"
  by (cases n rule: is_file.cases) simp_all

lemma mkdir_creatable:
  "creatable fs d \<Longrightarrow> \<exists>fs'. mkdir fs d True True = (None, fs')"
proof (induction d arbitrary: fs rule: rev_induct)
  case Nil
  show ?case
    by (simp add: mkdir_parents os_mkdir_root is_dir_def node_at_def)
next
  case (snoc x xs)
  let ?d = "xs @ [x]"
  have nd: "node_at fs ?d = None \<or> node_at fs ?d = Some Dir"
    using creatable_self [OF snoc.prems] by (rule not_file_cases)
  have np: "node_at fs xs = None \<or> node_at fs xs = Some Dir"
    using creatable_self [OF creatable_snoc [OF snoc.prems]] by (rule not_file_cases)
  show ?case
  proof (cases "os_mkdir fs ?d")
    case (Inr fs1)
    then show ?thesis by (simp add: mkdir_parents)
  next
    case (Inl e)
    from os_mkdir_Inl [OF Inl] show ?thesis
    proof (elim disjE conjE)
      assume e: "e = FileNotFoundError" "node_at fs (parent ?d) = None"
      from snoc.IH [OF creatable_snoc [OF snoc.prems]] obtain fs1 where
        m1: "mkdir fs xs True True = (None, fs1)" by blast
      have d1: "is_dir fs1 xs" using m1 by (rule mkdir_success_is_dir)
      have "fs1 ?d = fs ?d" using m1 by (rule mkdir_frame) simp
      then have n1: "node_at fs1 ?d = None \<or> node_at fs1 ?d = Some Dir"
        using nd by (simp add: node_at_def)
      have "\<exists>fs'. mkdir fs1 ?d False True = (None, fs')"
        using n1 d1
        by (auto simp: mkdir_leaf os_mkdir_def parent_snoc is_dir_def)
      with Inl e m1 show ?thesis
        by (simp add: mkdir_parents parent_snoc)
    next
      assume "e = NotADirectoryError" "is_file (node_at fs (parent ?d))"
      with np show ?thesis by (auto simp: parent_snoc)
    next
      assume e: "e = FileExistsError" "node_at fs ?d \<noteq> None"
      with nd have "is_dir fs ?d" by (simp add: is_dir_def)
      with Inl e show ?thesis by (simp add: mkdir_parents)
    qed
  qed
qed

lemma is_dir_update: "q \<noteq> p \<Longrightarrow> is_dir (fs(p \<mapsto> n)) q = is_dir fs q"
  by (simp add: is_dir_def node_at_def)

lemma os_mkdir_well_formed:
  assumes "well_formed fs" "os_mkdir fs p = Inr fs'"
  shows "well_formed fs'"
proof -
  from os_mkdir_Inr [OF assms(2)] have
    f: "fs' = fs(p \<mapsto> Dir)" and p: "p \<noteq> []" and d: "is_dir fs (parent p)" by auto
  have pp: "parent p \<noteq> p" using p by (simp add: parent_eq_self)
  show ?thesis
    unfolding well_formed_def
  proof (intro allI impI)
    fix q assume q: "fs' q \<noteq> None"
    show "is_dir fs' (parent q)"
    proof (cases "q = p")
      case True
      with d pp f show ?thesis by (simp add: is_dir_update)
    next
      case False
      with q f have "fs q \<noteq> None" by simp
      with assms(1) have "is_dir fs (parent q)" by (simp add: well_formed_def)
      with f show ?thesis by (auto simp: is_dir_def node_at_def)
    qed
  qed
qed

lemma mkdir_leaf_well_formed:
  "well_formed fs \<Longrightarrow> mkdir fs p False exist_ok = (r, fs') \<Longrightarrow> well_formed fs'"
  by (auto simp: mkdir_leaf split: sum.splits if_splits intro: os_mkdir_well_formed)

lemma mkdir_well_formed:
  "well_formed fs \<Longrightarrow> mkdir fs p True exist_ok = (r, fs') \<Longrightarrow> well_formed fs'"
proof (induction p arbitrary: fs fs' r exist_ok rule: rev_induct)
  case Nil
  then show ?case
    by (auto simp: mkdir_parents os_mkdir_root split: if_splits)
next
  case (snoc x xs)
  show ?case
  proof (cases "os_mkdir fs (xs @ [x])")
    case (Inr fs1)
    with snoc.prems show ?thesis
      by (auto simp: mkdir_parents intro: os_mkdir_well_formed)
  next
    case (Inl e)
    obtain r1 fs1 where m1: "mkdir fs xs True True = (r1, fs1)"
      by (cases "mkdir fs xs True True")
    have w1: "well_formed fs1" using snoc.IH [OF snoc.prems(1) m1] .
    from Inl m1 snoc.prems(2) have
      "fs' = fs \<or> fs' = fs1 \<or> (\<exists>r'. mkdir fs1 (xs @ [x]) False exist_ok = (r', fs'))"
      by (auto simp: mkdir_parents parent_snoc split: if_splits option.splits)
    with w1 snoc.prems(1) show ?thesis
      by (auto intro: mkdir_leaf_well_formed)
  qed
qed

lemma write_file_Inr:
  "write_file fs p b = Inr fs' \<Longrightarrow>
     fs' = fs(p \<mapsto> File b) \<and> p \<noteq> [] \<and> is_dir fs (parent p) \<and> \<not> is_dir fs p"
  by (auto simp: write_file_def is_dir_def node_at_def
      split: option.splits node.splits if_splits)


lemma write_file_well_formed:
  assumes "well_formed fs" "write_file fs p b = Inr fs'"
  shows "well_formed fs'"
proof -
  from write_file_Inr [OF assms(2)] have
    f: "fs' = fs(p \<mapsto> File b)" and p: "p \<noteq> []" and d: "is_dir fs (parent p)"
    and nd: "\<not> is_dir fs p" by auto
  have pp: "parent p \<noteq> p" using p by (simp add: parent_eq_self)
  show ?thesis
    unfolding well_formed_def
  proof (intro allI impI)
    fix q assume q: "fs' q \<noteq> None"
    show "is_dir fs' (parent q)"
    proof (cases "q = p")
      case True
      with d pp f show ?thesis by (simp add: is_dir_update)
    next
      case False
      with q f have "fs q \<noteq> None" by simp
      with assms(1) have "is_dir fs (parent q)" by (simp add: well_formed_def)
      with nd have "parent q \<noteq> p" by auto
      with \<open>is_dir fs (parent q)\<close> f show ?thesis by (simp add: is_dir_update)
    qed
  qed
qed

text \<open>In a well-formed file system every ancestor of a directory is a directory.\<close>

lemma well_formed_ancestors:
  "well_formed fs \<Longrightarrow> is_dir fs p \<Longrightarrow> prefix q p \<Longrightarrow> is_dir fs q"
proof (induction p rule: rev_induct)
  case Nil
  then show ?case by simp
next
  case (snoc x xs)
  show ?case
  proof (cases "q = xs @ [x]")
    case True
    with snoc.prems show ?thesis by simp
  next
    case False
    with snoc.prems(3) have pq: "prefix q xs" by simp
    from snoc.prems(2) have "fs (xs @ [x]) \<noteq> None"
      by (simp add: is_dir_def node_at_def)
    with snoc.prems(1) have "is_dir fs xs"
      by (auto simp: well_formed_def parent_snoc dest: spec [of _ "xs @ [x]"])
    from snoc.IH [OF snoc.prems(1) this pq] show ?thesis .
  qed
qed

section \<open>Properties of the persister\<close>

lemma pickled_not_empty: "pickled L model \<noteq> []"
  by (simp add: pickled_def)

lemma save_model_success:
  assumes "save_model L fs model p = (out, None, fs')"
  shows "fs' p = Some (File (pickled L model)) \<and> is_dir fs' (parent p) \<and> p \<noteq> []"
proof -
  from assms obtain fs1 where
    m: "mkdir fs (parent p) True True = (None, fs1)" and
    w: "write_file fs1 p (pickled L model) = Inr fs'"
    by (auto simp: save_model_def joblib_dump_def split: prod.splits option.splits sum.splits)
  from write_file_Inr [OF w] have
    f: "fs' = fs1(p \<mapsto> File (pickled L model))" and p: "p \<noteq> []"
    and d: "is_dir fs1 (parent p)" by auto
  have "parent p \<noteq> p" using p by (simp add: parent_eq_self)
  with f d p show ?thesis by (simp add: is_dir_update)
qed


lemma save_model_well_formed:
  assumes "well_formed fs" "save_model L fs model p = (out, r, fs')"
  shows "well_formed fs'"
proof (cases "mkdir fs (parent p) True True")
  case (Pair r1 fs1)
  have w1: "well_formed fs1" using assms(1) Pair by (rule mkdir_well_formed)
  from Pair assms(2) have "fs' = fs1 \<or> write_file fs1 p (pickled L model) = Inr fs'"
    by (auto simp: save_model_def joblib_dump_def split: option.splits sum.splits)
  with w1 show ?thesis by (auto intro: write_file_well_formed)
qed

lemma save_model_creatable:
  assumes "creatable fs (parent p)" "\<not> is_dir fs p"
  shows "\<exists>fs'. save_model L fs model p =
           ([Text [], Text (''Model saved to: '' @ path_str p)], None, fs')"
proof -
  from mkdir_creatable [OF assms(1)] obtain fs1 where
    m: "mkdir fs (parent p) True True = (None, fs1)" by blast
  have p: "p \<noteq> []" using assms(2) by (auto simp: is_dir_def node_at_def)
  then have "\<not> prefix p (parent p)"
    by (cases p rule: rev_cases) (simp_all add: parent_snoc)
  with m have "fs1 p = fs p" by (rule mkdir_frame)
  with assms(2) p have nd: "\<not> is_dir fs1 p" by (simp add: is_dir_def node_at_def)
  have d: "is_dir fs1 (parent p)" using m by (rule mkdir_success_is_dir)
  from nd d have "write_file fs1 p (pickled L model) = Inr (fs1(p \<mapsto> File (pickled L model)))"
    by (auto simp: write_file_def is_dir_def split: option.splits node.splits)
  with m show ?thesis by (simp add: save_model_def joblib_dump_def)
qed

section \<open>Properties of the loader\<close>


lemma load_read_ok:
  assumes "read_csv L fs p = Inr df"
  shows "load_training_data L g fs p s =
     ([Text (''Loading training data from '' @ path_str p @ ''...'')],
      (case df_getitem_list df feature_columns of
         Inl e \<Rightarrow> Inl e
       | Inr X \<Rightarrow> (case df_getitem df ''ImportanceScore'' of
                     Inl e \<Rightarrow> Inl e
                   | Inr y \<Rightarrow> Inr (X, y))),
      s)"
  unfolding load_training_data_def Let_def
  by (simp add: assms split: sum.splits)

lemma load_read_error:
  assumes "read_csv L fs p = Inl e" "e \<noteq> FileNotFoundError"
  shows "load_training_data L g fs p s =
     ([Text (''Loading training data from '' @ path_str p @ ''...'')], Inl e, s)"
  unfolding load_training_data_def Let_def
  by (simp add: assms)

lemma getitem_list_Inr:
  "df_getitem_list df names = Inr X \<longleftrightarrow>
     (\<forall>c \<in> set names. map_of df c \<noteq> None) \<and>
     X = map (\<lambda>c. (c, the (map_of df c))) names"
proof -
  have a: "filter (\<lambda>c. map_of df c = None) names = [] \<longleftrightarrow> (\<forall>c \<in> set names. map_of df c \<noteq> None)"
    by (auto simp: filter_empty_conv)
  have b: "List.map_filter (\<lambda>c. map_option (Pair c) (map_of df c)) names =
             map (\<lambda>c. (c, the (map_of df c))) names"
    if "\<forall>c \<in> set names. map_of df c \<noteq> None"
    using that by (induction names) (auto simp: List.map_filter_simps split: option.splits)
  show ?thesis
    using a b by (auto simp: df_getitem_list_def split: list.splits)
qed

lemma getitem_list_Inl:
  "df_getitem_list df names = Inl e \<longleftrightarrow>
     (\<exists>c \<in> set names. map_of df c = None) \<and>
     e = KeyError (filter (\<lambda>c. map_of df c = None) names)"
proof -
  have "filter (\<lambda>c. map_of df c = None) names \<noteq> [] \<longleftrightarrow> (\<exists>c \<in> set names. map_of df c = None)"
    by (auto simp: filter_empty_conv)
  then show ?thesis
    by (cases "filter (\<lambda>c. map_of df c = None) names") (auto simp: df_getitem_list_def)
qed

lemma getitem_list_columns: "df_getitem_list df names = Inr X \<Longrightarrow> columns X = names"
  by (simp add: getitem_list_Inr columns_def comp_def)

lemma getitem_list_cong:
  assumes "\<forall>c \<in> set names. map_of df c = map_of df' c"
  shows "df_getitem_list df names = df_getitem_list df' names"
proof -
  have a: "filter (\<lambda>c. map_of df c = None) names = filter (\<lambda>c. map_of df' c = None) names"
    using assms by (intro filter_cong) auto
  have b: "List.map_filter (\<lambda>c. map_option (Pair c) (map_of df c)) names =
      List.map_filter (\<lambda>c. map_option (Pair c) (map_of df' c)) names"
    using assms by (induction names) (auto simp: List.map_filter_simps split: option.splits)
  show ?thesis
    unfolding df_getitem_list_def a b by (rule refl)
qed

lemma getitem_list_lookup:
  assumes "df_getitem_list df names = Inr X" "c \<in> set names"
  shows "map_of X c = map_of df c"
proof -
  from assms(1) have all: "\<forall>c \<in> set names. map_of df c \<noteq> None"
    and X: "X = map (\<lambda>c. (c, the (map_of df c))) names"
    by (simp_all add: getitem_list_Inr)
  have "map_of (map (\<lambda>c. (c, the (map_of df c))) names) c = Some (the (map_of df c))"
    using assms(2) by (induction names) auto
  with all assms(2) X show ?thesis by auto
qed

text \<open>The loader's result is one of three: the features and target of the parsed table,
  those of the synthetic table, or an error that is not the missing file.\<close>

lemma load_result_cases:
  obtains
    (parsed) df where "read_csv L fs p = Inr df"
      "fst (snd (load_training_data L g fs p s)) =
         (case df_getitem_list df feature_columns of
            Inl e \<Rightarrow> Inl e
          | Inr X \<Rightarrow> (case df_getitem df ''ImportanceScore'' of
                        Inl e \<Rightarrow> Inl e
                      | Inr y \<Rightarrow> Inr (X, y)))"
  | (synthetic) "read_csv L fs p = Inl FileNotFoundError"
      "fst (snd (load_training_data L g fs p s)) =
         Inr ([(''VisualComplexity'', map FloatC (VisualComplexity (draw_sample_arrays g s))),
               (''ColorVariance'', map FloatC (ColorVariance (draw_sample_arrays g s))),
               (''EdgeDensity'', map FloatC (EdgeDensity (draw_sample_arrays g s))),
               (''Brightness'', map FloatC (Brightness (draw_sample_arrays g s))),
               (''Contrast'', map FloatC (Contrast (draw_sample_arrays g s))),
               (''AspectRatio'', replicate n_samples (FloatC 1.778))],
              map FloatC (ImportanceScore (draw_sample_arrays g s)))"
  | (failed) e where "read_csv L fs p = Inl e" "e \<noteq> FileNotFoundError"
      "fst (snd (load_training_data L g fs p s)) = Inl e"
proof (cases "read_csv L fs p")
  case (Inr df)
  then show ?thesis using parsed by (simp add: load_read_ok)
next
  case (Inl e)
  show ?thesis
  proof (cases "e = FileNotFoundError")
    case True
    with Inl show ?thesis using synthetic by (simp add: load_missing)
  next
    case False
    with Inl show ?thesis using failed by (simp add: load_read_error)
  qed
qed

lemma load_columns:
  assumes "fst (snd (load_training_data L g fs p s)) = Inr (X, y)"
  shows "columns X = feature_columns"
proof (cases rule: load_result_cases [of L fs p g s])
  case (parsed df)
  with assms have "df_getitem_list df feature_columns = Inr X"
    by (auto split: sum.splits)
  then show ?thesis by (rule getitem_list_columns)
next
  case synthetic
  with assms show ?thesis by (auto simp: columns_def feature_columns_def)
next
  case (failed e)
  with assms show ?thesis by simp
qed


section \<open>Properties of the splitter\<close>






lemma n_rows_pos: "0 < n_rows X \<Longrightarrow> X \<noteq> []"
  by auto

lemma ceiling_fraction:
  assumes "0 < t" "t < 1"
  shows "0 \<le> \<lceil>t * real n\<rceil>" "\<lceil>t * real n\<rceil> \<le> int n"
proof -
  have "0 \<le> t * real n" using assms(1) by simp
  then show "0 \<le> \<lceil>t * real n\<rceil>" by simp
  have "t * real n \<le> real n" using assms(2) mult_right_mono [of t 1 "real n"] by simp
  then show "\<lceil>t * real n\<rceil> \<le> int n" by (simp add: ceiling_le)
qed

lemma validate_shuffle_split_eq:
  "validate_shuffle_split n t =
     (if 0 < t \<and> t < 1 then
        if nat \<lceil>t * real n\<rceil> < n then Inr (n - nat \<lceil>t * real n\<rceil>, nat \<lceil>t * real n\<rceil>)
        else Inl (ValueError ''the resulting train set will be empty'')
      else Inl (ValueError ''test_size should be a float in the (0, 1) range''))"
proof (cases "0 < t \<and> t < 1")
  case False
  then show ?thesis by (auto simp: validate_shuffle_split_def)
next
  case True
  then have c: "0 \<le> \<lceil>t * real n\<rceil>" "\<lceil>t * real n\<rceil> \<le> int n"
    using ceiling_fraction [of t n] by auto
  then have "nat (int n - \<lceil>t * real n\<rceil>) = n - nat \<lceil>t * real n\<rceil>" by linarith
  moreover have "int n - \<lceil>t * real n\<rceil> = 0 \<longleftrightarrow> \<not> nat \<lceil>t * real n\<rceil> < n"
    using c by linarith
  ultimately show ?thesis
    using True by (simp add: validate_shuffle_split_def Let_def)
qed




lemma train_test_split_succeeds:
  assumes "n_rows X = length y" "0 < t" "t < 1" "nat \<lceil>t * real (length y)\<rceil> < length y"
  shows "\<exists>r. train_test_split g X y t seed = Inr r"
  using assms
  by (simp add: train_test_split_def validate_shuffle_split_eq Let_def)

section \<open>Properties of the trainer\<close>





lemma train_model_fitted:
  assumes "fit L X_train y_train = Inr model"
  shows "train_model L X_train y_train X_test y_test =
     ([Text ''Training Random Forest model...'',
       Text [], Text ''Training Results:'',
       Fmt4 ''  Train MSE: '' (mean_squared_error L y_train (predict L model X_train)),
       Fmt4 ''  Test MSE:  '' (mean_squared_error L y_test (predict L model X_test)),
       Fmt4 ''  Train R2:  '' (r2_score L y_train (predict L model X_train)),
       Fmt4 ''  Test R2:   '' (r2_score L y_test (predict L model X_test)),
       Text [], Text ''Feature Importances:''] @
      map (\<lambda>(name, importance). Fmt4 (''  '' @ pad20 name @ '': '') importance)
        (importance_report (columns X_train) (feature_importances L model)),
      Inr model)"
  by (simp add: train_model_def assms Let_def)

lemma train_model_failed:
  assumes "fit L X_train y_train = Inl msg"
  shows "train_model L X_train y_train X_test y_test =
     ([Text ''Training Random Forest model...''], Inl (ValueError msg))"
  by (simp add: train_model_def assms Let_def)


section \<open>Properties of the script\<close>

text \<open>The five ways \<^verbatim>\<open>main\<close> can end.\<close>

lemma main_cases:
  obtains
    (load_failed) e where
      "fst (snd (load_training_data L g fs (data_path a) s)) = Inl e"
      "snd (main L g a fs s) = (Uncaught e, fs)"
  | (split_failed) X y e where
      "fst (snd (load_training_data L g fs (data_path a) s)) = Inr (X, y)"
      "train_test_split g X y (test_size a) 42 = Inl e"
      "snd (main L g a fs s) = (Uncaught e, fs)"
  | (fit_failed) X y X_train X_test y_train y_test msg where
      "fst (snd (load_training_data L g fs (data_path a) s)) = Inr (X, y)"
      "train_test_split g X y (test_size a) 42 = Inr (X_train, X_test, y_train, y_test)"
      "fit L X_train y_train = Inl msg"
      "snd (main L g a fs s) = (Uncaught (ValueError msg), fs)"
  | (save_failed) X y X_train X_test y_train y_test model out e fs' where
      "fst (snd (load_training_data L g fs (data_path a) s)) = Inr (X, y)"
      "train_test_split g X y (test_size a) 42 = Inr (X_train, X_test, y_train, y_test)"
      "fit L X_train y_train = Inr model"
      "save_model L fs model (output_path a) = (out, Some e, fs')"
      "snd (main L g a fs s) = (Uncaught e, fs')"
  | (completed) X y X_train X_test y_train y_test model out fs' where
      "fst (snd (load_training_data L g fs (data_path a) s)) = Inr (X, y)"
      "train_test_split g X y (test_size a) 42 = Inr (X_train, X_test, y_train, y_test)"
      "fit L X_train y_train = Inr model"
      "save_model L fs model (output_path a) = (out, None, fs')"
      "snd (main L g a fs s) = (Exit 0, fs')"
proof -
  obtain out1 r s1 where ld: "load_training_data L g fs (data_path a) s = (out1, r, s1)"
    by (cases "load_training_data L g fs (data_path a) s")
  show ?thesis
  proof (cases r)
    case (Inl e)
    with ld show ?thesis using load_failed [of e] by (simp add: main_def)
  next
    case (Inr Xy)
    obtain X y where Xy: "Xy = (X, y)" by (cases Xy)
    show ?thesis
    proof (cases "train_test_split g X y (test_size a) 42")
      case (Inl e)
      with ld Inr Xy show ?thesis using split_failed [of X y e] by (simp add: main_def Let_def)
    next
      case sp: (Inr parts)
      obtain X_train X_test y_train y_test where
        parts: "parts = (X_train, X_test, y_train, y_test)" by (cases parts)
      show ?thesis
      proof (cases "fit L X_train y_train")
        case (Inl msg)
        with ld Inr Xy sp parts show ?thesis
          using fit_failed [of X y X_train X_test y_train y_test msg]
          by (simp add: main_def Let_def train_model_failed)
      next
        case ft: (Inr model)
        obtain out r' fs' where sv: "save_model L fs model (output_path a) = (out, r', fs')"
          by (cases "save_model L fs model (output_path a)")
        show ?thesis
        proof (cases r')
          case None
          with ld Inr Xy sp parts ft sv show ?thesis
            using completed [of X y X_train X_test y_train y_test model out fs']
            by (simp add: main_def Let_def train_model_fitted)
        next
          case (Some e)
          with ld Inr Xy sp parts ft sv show ?thesis
            using save_failed [of X y X_train X_test y_train y_test model out e fs']
            by (simp add: main_def Let_def train_model_fitted)
        qed
      qed
    qed
  qed
qed

lemma main_load_error:
  assumes "fst (snd (load_training_data L g fs (data_path a) s)) = Inl e"
  shows "snd (main L g a fs s) = (Uncaught e, fs)"
  using assms by (cases rule: main_cases [of L g fs a s]) simp_all



lemma main_completes:
  assumes "fst (snd (load_training_data L g fs (data_path a) s)) = Inr (X, y)"
    and "train_test_split g X y (test_size a) 42 = Inr (X_train, X_test, y_train, y_test)"
    and "fit L X_train y_train = Inr model"
    and "creatable fs (parent (output_path a))" "\<not> is_dir fs (output_path a)"
  shows "fst (snd (main L g a fs s)) = Exit 0"
proof -
  from save_model_creatable [OF assms(4,5), of L model] obtain fs' out where
    sv: "save_model L fs model (output_path a) = (out, None, fs')" by blast
  show ?thesis
    using assms(1,2,3) sv by (cases rule: main_cases [of L g fs a s]) simp_all
qed

lemma main_exit_0:
  assumes "fst (snd (main L g a fs s)) = Exit 0"
  shows "\<exists>model out. save_model L fs model (output_path a) = (out, None, snd (snd (main L g a fs s)))"
  using assms by (cases rule: main_cases [of L g fs a s]) auto

lemma main_well_formed:
  assumes "well_formed fs"
  shows "well_formed (snd (snd (main L g a fs s)))"
  using assms
  by (cases rule: main_cases [of L g fs a s]) (auto intro: save_model_well_formed)

lemma module_imports_all:
  "{''pandas'', ''numpy'', ''sklearn'', ''joblib''} \<subseteq> installed \<Longrightarrow>
     module_imports installed = ([], None)"
  by (simp add: module_imports_def import_module_def)

lemma script_installed:
  "{''pandas'', ''numpy'', ''sklearn'', ''joblib''} \<subseteq> installed \<Longrightarrow>
     script installed L g a fs s = main L g a fs s"
  by (simp add: script_def module_imports_all split_beta)

section \<open>The worked examples, evaluated\<close>

lemma example_read:
  "read_csv example_libraries example_filesystem [''training-data'', ''frames.csv''] = Inr small_table"
  "read_csv example_libraries example_filesystem [''training-data'', ''other.csv''] = Inr small_table_other"
  "read_csv example_libraries example_filesystem [''training-data'', ''no_target.csv''] =
     Inr small_table_no_target"
  "read_csv example_libraries example_filesystem [''training-data'', ''no_feature.csv''] =
     Inr small_table_no_feature"
  "read_csv example_libraries example_filesystem [''training-data'', ''broken.csv''] =
     Inl (ParserError ''a,b'')"
  "read_csv example_libraries example_filesystem [''training-data'', ''missing.csv''] =
     Inl FileNotFoundError"
  by (simp_all add: read_csv_def read_file_def node_at_def example_filesystem_def
      example_libraries_def)

lemma small_table_features:
  "df_getitem_list small_table feature_columns = Inr small_features"
  "df_getitem_list small_table_other feature_columns = Inr small_features"
  "df_getitem_list small_table_no_target feature_columns = Inr small_features"
  "df_getitem_list small_table_no_feature feature_columns = Inl (KeyError [''VisualComplexity''])"
  by (simp_all add: df_getitem_list_def feature_columns_def small_table_def
      small_table_other_def small_table_no_target_def small_table_no_feature_def
      small_features_def List.map_filter_simps)

lemma small_table_target:
  "df_getitem small_table ''ImportanceScore'' = Inr small_target"
  "df_getitem small_table_other ''ImportanceScore'' = Inr small_target"
  "df_getitem small_table_no_target ''ImportanceScore'' = Inl (KeyError [''ImportanceScore''])"
  by (simp_all add: df_getitem_def small_table_def small_table_other_def
      small_table_no_target_def small_target_def)

lemma example_load:
  "fst (snd (load_training_data example_libraries g example_filesystem
      [''training-data'', ''frames.csv''] s)) = Inr (small_features, small_target)"
  "fst (snd (load_training_data example_libraries g example_filesystem
      [''training-data'', ''other.csv''] s)) = Inr (small_features, small_target)"
  "fst (snd (load_training_data example_libraries g example_filesystem
      [''training-data'', ''no_target.csv''] s)) = Inl (KeyError [''ImportanceScore''])"
  "fst (snd (load_training_data example_libraries g example_filesystem
      [''training-data'', ''no_feature.csv''] s)) = Inl (KeyError [''VisualComplexity''])"
  "fst (snd (load_training_data example_libraries g example_filesystem
      [''training-data'', ''broken.csv''] s)) = Inl (ParserError ''a,b'')"
  by (simp_all add: load_read_ok load_read_error example_read small_table_features
      small_table_target)

lemma small_features_rows:
  "n_rows small_features = 5" "length small_target = 5"
  "columns small_features = feature_columns"
  by (simp_all add: small_features_def small_table_def small_target_def columns_def
      feature_columns_def)

lemma example_well_formed: "well_formed example_filesystem"
  by (auto simp: well_formed_def example_filesystem_def is_dir_def node_at_def parent_def
      split: if_splits)

text \<open>
  Claim C2. In the synthesised table the target of every row is the weighted sum
  0.3 VisualComplexity + 0.25 EdgeDensity + 0.2 Contrast + 0.15 ColorVariance +
  0.1 |Brightness - 0.5| of that row's features, plus the row's noise (a normal draw of
  the generator with mean 0 and scale 0.05), plus 0.15 when the row's key-frame flag is
  set, clipped to [0, 1].
\<close>

theorem importance_score_formula:
  fixes g :: "'s generator"
  defines "a \<equiv> \<lambda>s. draw_sample_arrays g s"
  defines "df \<equiv> \<lambda>s. fst (create_sample_data g s)"
  assumes "i < n_samples"
  shows "df_getitem (df s) ''ImportanceScore'' = Inr (map FloatC (ImportanceScore (a s))) \<and>
         df_getitem (df s) ''VisualComplexity'' = Inr (map FloatC (VisualComplexity (a s))) \<and>
         df_getitem (df s) ''EdgeDensity'' = Inr (map FloatC (EdgeDensity (a s))) \<and>
         df_getitem (df s) ''Contrast'' = Inr (map FloatC (Contrast (a s))) \<and>
         df_getitem (df s) ''ColorVariance'' = Inr (map FloatC (ColorVariance (a s))) \<and>
         df_getitem (df s) ''Brightness'' = Inr (map FloatC (Brightness (a s))) \<and>
         df_getitem (df s) ''IsKeyFrame'' = Inr (map BoolC (IsKeyFrame (a s))) \<and>
         (\<exists>s7. noise (a s) = fst (np_random_normal g 0 0.05 n_samples s7)) \<and>
         ImportanceScore (a s) ! i =
           np_clip (0.3 * VisualComplexity (a s) ! i + 0.25 * EdgeDensity (a s) ! i +
                    0.2 * Contrast (a s) ! i + 0.15 * ColorVariance (a s) ! i +
                    0.1 * \<bar>Brightness (a s) ! i - 0.5\<bar> +
                    noise (a s) ! i +
                    (if IsKeyFrame (a s) ! i then 0.15 else 0)) 0 1"
proof -
  have cols: "df_getitem (df s) ''ImportanceScore'' = Inr (map FloatC (ImportanceScore (a s)))"
    "df_getitem (df s) ''VisualComplexity'' = Inr (map FloatC (VisualComplexity (a s)))"
    "df_getitem (df s) ''EdgeDensity'' = Inr (map FloatC (EdgeDensity (a s)))"
    "df_getitem (df s) ''Contrast'' = Inr (map FloatC (Contrast (a s)))"
    "df_getitem (df s) ''ColorVariance'' = Inr (map FloatC (ColorVariance (a s)))"
    "df_getitem (df s) ''Brightness'' = Inr (map FloatC (Brightness (a s)))"
    "df_getitem (df s) ''IsKeyFrame'' = Inr (map BoolC (IsKeyFrame (a s)))"
    by (simp_all add: df_getitem_def df_def a_def sample_column_values)
  have nz: "\<exists>s7. noise (a s) = fst (np_random_normal g 0 0.05 n_samples s7)"
    unfolding a_def by (rule noise_is_normal)
  have "ImportanceScore (a s) ! i = importance_at (a s) i"
    using assms(3) by (simp add: ImportanceScore_def)
  also have "\<dots> =
           np_clip (0.3 * VisualComplexity (a s) ! i + 0.25 * EdgeDensity (a s) ! i +
                    0.2 * Contrast (a s) ! i + 0.15 * ColorVariance (a s) ! i +
                    0.1 * \<bar>Brightness (a s) ! i - 0.5\<bar> +
                    noise (a s) ! i +
                    (if IsKeyFrame (a s) ! i then 0.15 else 0)) 0 1"
    by (simp add: importance_at_def Let_def algebra_simps)
  finally show ?thesis using cols nz by simp
qed

theorem importance_score_formula_witness:
  "(0::nat) < n_samples \<and>
   ImportanceScore (draw_sample_arrays counter_generator 7) ! 0 =
     np_clip (0.3 * VisualComplexity (draw_sample_arrays counter_generator 7) ! 0 +
              0.25 * EdgeDensity (draw_sample_arrays counter_generator 7) ! 0 +
              0.2 * Contrast (draw_sample_arrays counter_generator 7) ! 0 +
              0.15 * ColorVariance (draw_sample_arrays counter_generator 7) ! 0 +
              0.1 * \<bar>Brightness (draw_sample_arrays counter_generator 7) ! 0 - 0.5\<bar> +
              noise (draw_sample_arrays counter_generator 7) ! 0 +
              (if IsKeyFrame (draw_sample_arrays counter_generator 7) ! 0 then 0.15 else 0)) 0 1"
proof -
  have h: "(0::nat) < n_samples" by (simp add: n_samples_def)
  show ?thesis using h importance_score_formula [OF h, of counter_generator 7] by simp
qed

text \<open>
  Claim C3. The synthesised table has 1000 rows, and the ImportanceScore of every one of
  them lies in the closed interval [0, 1].
\<close>

theorem importance_score_in_unit_interval:
  fixes g :: "'s generator"
  defines "df \<equiv> \<lambda>s. fst (create_sample_data g s)"
  defines "scores \<equiv> \<lambda>s. ImportanceScore (draw_sample_arrays g s)"
  shows "n_rows (df s) = 1000 \<and>
         df_getitem (df s) ''ImportanceScore'' = Inr (map FloatC (scores s)) \<and>
         length (scores s) = 1000 \<and>
         (\<forall>x \<in> set (scores s). 0 \<le> x \<and> x \<le> 1)"
proof -
  have "df_getitem (df s) ''ImportanceScore'' = Inr (map FloatC (scores s))"
    by (simp add: df_def scores_def sample_target)
  moreover have "length (scores s) = 1000"
    by (simp add: scores_def length_ImportanceScore n_samples_def)
  moreover have "\<forall>x \<in> set (scores s). 0 \<le> x \<and> x \<le> 1"
    using clip_bounds [of 0 1]
    by (auto simp: scores_def ImportanceScore_def importance_at_def Let_def)
  moreover have "n_rows (df s) = 1000"
    by (simp add: df_def sample_n_rows n_samples_def)
  ultimately show ?thesis by blast
qed

theorem importance_score_in_unit_interval_witness:
  "ImportanceScore (draw_sample_arrays counter_generator 0) ! 999
     \<in> set (ImportanceScore (draw_sample_arrays counter_generator 0)) \<and>
   0 \<le> ImportanceScore (draw_sample_arrays counter_generator 0) ! 999 \<and>
   ImportanceScore (draw_sample_arrays counter_generator 0) ! 999 \<le> 1"
proof -
  have h: "ImportanceScore (draw_sample_arrays counter_generator 0) ! 999
     \<in> set (ImportanceScore (draw_sample_arrays counter_generator 0))"
    by (rule nth_mem) (simp add: length_ImportanceScore n_samples_def)
  show ?thesis
    using h importance_score_in_unit_interval [of counter_generator 0] by blast
qed

text \<open>
  Claim C5. The synthetic data do not depend on the state of the generator when the
  generation step is called: two invocations return the same table (and leave the same
  generator state), and two loads of a missing file return the same features and target.
\<close>

theorem synthetic_data_deterministic:
  "create_sample_data g s = create_sample_data g s' \<and>
   (read_csv L fs p = Inl FileNotFoundError \<and> read_csv L' fs' p' = Inl FileNotFoundError \<longrightarrow>
      fst (snd (load_training_data L g fs p s)) = fst (snd (load_training_data L' g fs' p' s')))"
proof -
  have "create_sample_data g s = create_sample_data g s'"
    by (simp add: create_sample_data_def draw_sample_arrays_state [of g s s'])
  moreover have "fst (snd (load_training_data L g fs p s)) =
      fst (snd (load_training_data L' g fs' p' s'))"
    if "read_csv L fs p = Inl FileNotFoundError" "read_csv L' fs' p' = Inl FileNotFoundError"
    using that by (simp add: load_missing draw_sample_arrays_state [of g s s'])
  ultimately show ?thesis by blast
qed

theorem synthetic_data_deterministic_witness:
  "read_csv example_libraries example_filesystem [''missing.csv''] = Inl FileNotFoundError \<and>
   read_csv example_libraries Map.empty [''training-data'', ''frames.csv''] = Inl FileNotFoundError \<and>
   fst (snd (load_training_data example_libraries counter_generator example_filesystem
               [''missing.csv''] 0)) =
   fst (snd (load_training_data example_libraries counter_generator Map.empty
               [''training-data'', ''frames.csv''] 99))"
proof -
  have h1: "read_csv example_libraries example_filesystem [''missing.csv''] = Inl FileNotFoundError"
    by (simp add: read_csv_def read_file_def node_at_def example_filesystem_def)
  have h2: "read_csv example_libraries Map.empty [''training-data'', ''frames.csv''] =
              Inl FileNotFoundError"
    by (simp add: read_csv_def read_file_def node_at_def)
  show ?thesis
    using h1 h2 synthetic_data_deterministic [of counter_generator 0 99 example_libraries
        example_filesystem "[''missing.csv'']" example_libraries Map.empty
        "[''training-data'', ''frames.csv'']"]
    by blast
qed

text \<open>
  Claim C10. Whatever the loader returns as features has exactly the six columns
  VisualComplexity, ColorVariance, EdgeDensity, Brightness, Contrast, AspectRatio, in that
  order. For a parsed table each of them is the table's column of that name, and two
  tables that agree on these six columns give the same features whatever else they hold.
\<close>

theorem loader_returns_the_six_features:
  "(fst (snd (load_training_data L g fs p s)) = Inr (X, y) \<longrightarrow>
      columns X = feature_columns \<and>
      feature_columns = [''VisualComplexity'', ''ColorVariance'', ''EdgeDensity'',
                         ''Brightness'', ''Contrast'', ''AspectRatio'']) \<and>
   (read_csv L fs p = Inr df \<and> fst (snd (load_training_data L g fs p s)) = Inr (X, y) \<longrightarrow>
      (\<forall>c \<in> set feature_columns. map_of X c = map_of df c)) \<and>
   (read_csv L fs p = Inr df \<and> read_csv L' fs' p' = Inr df' \<and>
    (\<forall>c \<in> set feature_columns. map_of df c = map_of df' c) \<and>
    fst (snd (load_training_data L g fs p s)) = Inr (X, y) \<and>
    fst (snd (load_training_data L' g' fs' p' s')) = Inr (X', y') \<longrightarrow> X = X')"
proof (intro conjI impI)
  assume "fst (snd (load_training_data L g fs p s)) = Inr (X, y)"
  then show "columns X = feature_columns" by (rule load_columns)
next
  show "feature_columns = [''VisualComplexity'', ''ColorVariance'', ''EdgeDensity'',
                         ''Brightness'', ''Contrast'', ''AspectRatio'']"
    by (simp add: feature_columns_def)
next
  assume a: "read_csv L fs p = Inr df \<and> fst (snd (load_training_data L g fs p s)) = Inr (X, y)"
  then have "df_getitem_list df feature_columns = Inr X"
    by (auto simp: load_read_ok split: sum.splits)
  then show "\<forall>c \<in> set feature_columns. map_of X c = map_of df c"
    by (auto intro: getitem_list_lookup)
next
  assume a: "read_csv L fs p = Inr df \<and> read_csv L' fs' p' = Inr df' \<and>
    (\<forall>c \<in> set feature_columns. map_of df c = map_of df' c) \<and>
    fst (snd (load_training_data L g fs p s)) = Inr (X, y) \<and>
    fst (snd (load_training_data L' g' fs' p' s')) = Inr (X', y')"
  then have "df_getitem_list df feature_columns = Inr X"
    "df_getitem_list df' feature_columns = Inr X'"
    by (auto simp: load_read_ok split: sum.splits)
  moreover have "df_getitem_list df feature_columns = df_getitem_list df' feature_columns"
    using a by (intro getitem_list_cong) simp
  ultimately show "X = X'" by simp
qed

theorem loader_returns_the_six_features_witness:
  "read_csv example_libraries example_filesystem [''training-data'', ''frames.csv''] =
     Inr small_table \<and>
   read_csv example_libraries example_filesystem [''training-data'', ''other.csv''] =
     Inr small_table_other \<and>
   map_of small_table ''FrameIndex'' \<noteq> map_of small_table_other ''FrameIndex'' \<and>
   fst (snd (load_training_data example_libraries counter_generator example_filesystem
               [''training-data'', ''frames.csv''] 0)) = Inr (small_features, small_target) \<and>
   fst (snd (load_training_data example_libraries counter_generator example_filesystem
               [''training-data'', ''other.csv''] 0)) = Inr (small_features, small_target) \<and>
   columns small_features = feature_columns \<and>
   map_of small_features ''EdgeDensity'' = map_of small_table ''EdgeDensity''"
proof -
  have agree: "\<forall>c \<in> set feature_columns. map_of small_table c = map_of small_table_other c"
    by (simp add: feature_columns_def small_table_def small_table_other_def)
  have differ: "map_of small_table ''FrameIndex'' \<noteq> map_of small_table_other ''FrameIndex''"
    by (simp add: small_table_def small_table_other_def)
  have mem: "''EdgeDensity'' \<in> set feature_columns"
    by (simp add: feature_columns_def)
  note t = loader_returns_the_six_features [of example_libraries counter_generator
      example_filesystem "[''training-data'', ''frames.csv'']" 0 small_features small_target
      small_table example_libraries example_filesystem "[''training-data'', ''other.csv'']"
      small_table_other counter_generator 0 small_features small_target]
  show ?thesis
    using t agree differ mem example_read(1,2)
      example_load(1,2) [of counter_generator 0]
    by blast
qed

text \<open>
  Claim C8. A failure of the load other than the missing file is not handled: a read or
  parse error other than \<^verbatim>\<open>FileNotFoundError\<close> and the \<^verbatim>\<open>KeyError\<close> of a table that lacks
  a feature column or the ImportanceScore column leave the loader as they are raised, and
  the script then ends with that exception uncaught, exit status 1, the file system
  untouched.
\<close>

theorem other_load_errors_propagate:
  "(read_csv L fs (data_path a) = Inl e \<and> e \<noteq> FileNotFoundError \<longrightarrow>
      fst (snd (load_training_data L g fs (data_path a) s)) = Inl e) \<and>
   (read_csv L fs (data_path a) = Inr df \<and> (\<exists>c \<in> set feature_columns. map_of df c = None) \<longrightarrow>
      fst (snd (load_training_data L g fs (data_path a) s)) =
        Inl (KeyError (filter (\<lambda>c. map_of df c = None) feature_columns))) \<and>
   (read_csv L fs (data_path a) = Inr df \<and> (\<forall>c \<in> set feature_columns. map_of df c \<noteq> None) \<and>
    map_of df ''ImportanceScore'' = None \<longrightarrow>
      fst (snd (load_training_data L g fs (data_path a) s)) = Inl (KeyError [''ImportanceScore''])) \<and>
   (fst (snd (load_training_data L g fs (data_path a) s)) = Inl e \<and>
    {''pandas'', ''numpy'', ''sklearn'', ''joblib''} \<subseteq> installed \<longrightarrow>
      snd (script installed L g a fs s) = (Uncaught e, fs) \<and>
      exit_status (fst (snd (script installed L g a fs s))) = 1)"
proof (intro conjI impI)
  assume "read_csv L fs (data_path a) = Inl e \<and> e \<noteq> FileNotFoundError"
  then show "fst (snd (load_training_data L g fs (data_path a) s)) = Inl e"
    by (simp add: load_read_error)
next
  assume h: "read_csv L fs (data_path a) = Inr df \<and> (\<exists>c \<in> set feature_columns. map_of df c = None)"
  then have "df_getitem_list df feature_columns =
      Inl (KeyError (filter (\<lambda>c. map_of df c = None) feature_columns))"
    by (simp add: getitem_list_Inl)
  with h show "fst (snd (load_training_data L g fs (data_path a) s)) =
        Inl (KeyError (filter (\<lambda>c. map_of df c = None) feature_columns))"
    by (simp add: load_read_ok)
next
  assume h: "read_csv L fs (data_path a) = Inr df \<and>
    (\<forall>c \<in> set feature_columns. map_of df c \<noteq> None) \<and> map_of df ''ImportanceScore'' = None"
  then have "df_getitem_list df feature_columns =
      Inr (map (\<lambda>c. (c, the (map_of df c))) feature_columns)"
    by (simp add: getitem_list_Inr)
  with h show "fst (snd (load_training_data L g fs (data_path a) s)) =
      Inl (KeyError [''ImportanceScore''])"
    by (simp add: load_read_ok df_getitem_def)
next
  assume h: "fst (snd (load_training_data L g fs (data_path a) s)) = Inl e \<and>
    {''pandas'', ''numpy'', ''sklearn'', ''joblib''} \<subseteq> installed"
  then have "script installed L g a fs s = main L g a fs s"
    by (simp add: script_installed)
  moreover have "snd (main L g a fs s) = (Uncaught e, fs)"
    using h by (simp add: main_load_error)
  ultimately show "snd (script installed L g a fs s) = (Uncaught e, fs)"
    "exit_status (fst (snd (script installed L g a fs s))) = 1"
    by simp_all
qed

theorem other_load_errors_propagate_witness:
  "read_csv example_libraries example_filesystem [''training-data'', ''broken.csv''] =
     Inl (ParserError ''a,b'') \<and>
   snd (script {''pandas'', ''numpy'', ''sklearn'', ''joblib''} example_libraries counter_generator
          (default_args \<lparr> data_path := [''training-data'', ''broken.csv''] \<rparr>)
          example_filesystem 0) = (Uncaught (ParserError ''a,b''), example_filesystem) \<and>
   read_csv example_libraries example_filesystem [''training-data'', ''no_feature.csv''] =
     Inr small_table_no_feature \<and>
   snd (script {''pandas'', ''numpy'', ''sklearn'', ''joblib''} example_libraries counter_generator
          (default_args \<lparr> data_path := [''training-data'', ''no_feature.csv''] \<rparr>)
          example_filesystem 0) = (Uncaught (KeyError [''VisualComplexity'']), example_filesystem) \<and>
   read_csv example_libraries example_filesystem [''training-data'', ''no_target.csv''] =
     Inr small_table_no_target \<and>
   snd (script {''pandas'', ''numpy'', ''sklearn'', ''joblib''} example_libraries counter_generator
          (default_args \<lparr> data_path := [''training-data'', ''no_target.csv''] \<rparr>)
          example_filesystem 0) = (Uncaught (KeyError [''ImportanceScore'']), example_filesystem)"
proof -
  let ?inst = "{''pandas'', ''numpy'', ''sklearn'', ''joblib''}"
  let ?a = "\<lambda>f. default_args \<lparr> data_path := [''training-data'', f] \<rparr>"
  have p: "\<And>f. data_path (?a f) = [''training-data'', f]" by simp
  have nf: "\<exists>c \<in> set feature_columns. map_of small_table_no_feature c = None"
    "filter (\<lambda>c. map_of small_table_no_feature c = None) feature_columns = [''VisualComplexity'']"
    by (simp_all add: feature_columns_def small_table_no_feature_def small_table_def)
  have nt: "\<forall>c \<in> set feature_columns. map_of small_table_no_target c \<noteq> None"
    "map_of small_table_no_target ''ImportanceScore'' = None"
    by (simp_all add: feature_columns_def small_table_no_target_def small_table_def)
  have ne: "ParserError ''a,b'' \<noteq> FileNotFoundError" by simp
  note t1 = other_load_errors_propagate [of example_libraries example_filesystem
      "?a ''broken.csv''" "ParserError ''a,b''" counter_generator 0 _ ?inst]
  note t2 = other_load_errors_propagate [of example_libraries example_filesystem
      "?a ''no_feature.csv''" "KeyError [''VisualComplexity'']" counter_generator 0
      small_table_no_feature ?inst]
  note t3 = other_load_errors_propagate [of example_libraries example_filesystem
      "?a ''no_target.csv''" "KeyError [''ImportanceScore'']" counter_generator 0
      small_table_no_target ?inst]
  have a1: "snd (script ?inst example_libraries counter_generator (?a ''broken.csv'')
          example_filesystem 0) = (Uncaught (ParserError ''a,b''), example_filesystem)"
    using t1 ne example_read(5) unfolding p by blast
  have a2: "snd (script ?inst example_libraries counter_generator (?a ''no_feature.csv'')
          example_filesystem 0) = (Uncaught (KeyError [''VisualComplexity'']), example_filesystem)"
    using t2 nf example_read(4) unfolding p by (metis subset_refl)
  have a3: "snd (script ?inst example_libraries counter_generator (?a ''no_target.csv'')
          example_filesystem 0) = (Uncaught (KeyError [''ImportanceScore'']), example_filesystem)"
    using t3 nt example_read(3) unfolding p by (metis subset_refl)
  show ?thesis
    using a1 a2 a3 example_read(3,4,5) by simp
qed






text \<open>
  Claim C9. Whenever the persister returns, the file at the output path holds the pickled
  model, which is not empty, and its parent is a directory; in a well-formed file system
  every ancestor of the path is then a directory. It does not fail when the parent is
  missing (at any depth) or already there: it succeeds whenever no ancestor is a regular
  file and the path itself is not a directory. After a run that exits with status 0 the
  output file exists and is not empty.
\<close>

theorem model_file_written_with_parents:
  "(save_model L fs model p = (out, None, fs') \<longrightarrow>
      fs' p = Some (File (pickled L model)) \<and> pickled L model \<noteq> [] \<and>
      is_dir fs' (parent p)) \<and>
   (well_formed fs \<and> save_model L fs model p = (out, None, fs') \<longrightarrow>
      (\<forall>q \<in> set (prefixes (parent p)). is_dir fs' q)) \<and>
   (creatable fs (parent p) \<and> \<not> is_dir fs p \<longrightarrow>
      (\<exists>out fs'. save_model L fs model p = (out, None, fs'))) \<and>
   (fst (snd (main L g a fs s)) = Exit 0 \<longrightarrow>
      (\<exists>b. snd (snd (main L g a fs s)) (output_path a) = Some (File b) \<and> b \<noteq> []) \<and>
      is_dir (snd (snd (main L g a fs s))) (parent (output_path a)))"
proof (intro conjI impI)
  assume s: "save_model L fs model p = (out, None, fs')"
  from save_model_success [OF s]
  show "fs' p = Some (File (pickled L model))" "is_dir fs' (parent p)" by simp_all
  show "pickled L model \<noteq> []" by (rule pickled_not_empty)
next
  assume h: "well_formed fs \<and> save_model L fs model p = (out, None, fs')"
  then have w: "well_formed fs'"
    using save_model_well_formed [of fs L model p out None fs'] by simp
  from h have d: "is_dir fs' (parent p)"
    using save_model_success [of L fs model p out fs'] by simp
  show "\<forall>q \<in> set (prefixes (parent p)). is_dir fs' q"
    using well_formed_ancestors [OF w d] by simp
next
  assume "creatable fs (parent p) \<and> \<not> is_dir fs p"
  then show "\<exists>out fs'. save_model L fs model p = (out, None, fs')"
    using save_model_creatable [of fs p L model] by blast
next
  assume e: "fst (snd (main L g a fs s)) = Exit 0"
  from main_exit_0 [OF e] obtain model' out' where
    s: "save_model L fs model' (output_path a) = (out', None, snd (snd (main L g a fs s)))"
    by blast
  from save_model_success [OF s] pickled_not_empty [of L model']
  show "\<exists>b. snd (snd (main L g a fs s)) (output_path a) = Some (File b) \<and> b \<noteq> []"
    "is_dir (snd (snd (main L g a fs s))) (parent (output_path a))"
    by simp_all
qed

theorem model_file_written_with_parents_witness:
  "well_formed example_filesystem \<and>
   creatable example_filesystem [''models'', ''v1''] \<and>
   \<not> is_dir example_filesystem [''models'', ''v1'', ''model.pkl''] \<and>
   (\<exists>out fs'. save_model example_libraries example_filesystem 3 [''models'', ''v1'', ''model.pkl''] =
        (out, None, fs') \<and>
      fs' [''models'', ''v1'', ''model.pkl''] = Some (File (pickled example_libraries 3)) \<and>
      is_dir fs' [''models''] \<and> is_dir fs' [''models'', ''v1'']) \<and>
   creatable example_filesystem [''training-data''] \<and>
   \<not> is_dir example_filesystem [''training-data'', ''model.pkl''] \<and>
   (\<exists>out fs'. save_model example_libraries example_filesystem 3 [''training-data'', ''model.pkl''] =
        (out, None, fs')) \<and>
   fst (snd (main example_libraries counter_generator
          (default_args \<lparr> data_path := [''training-data'', ''frames.csv''] \<rparr>)
          example_filesystem 0)) = Exit 0 \<and>
   (\<exists>b. snd (snd (main example_libraries counter_generator
          (default_args \<lparr> data_path := [''training-data'', ''frames.csv''] \<rparr>)
          example_filesystem 0)) [''models'', ''frame-importance-model.pkl''] = Some (File b) \<and>
        b \<noteq> [])"
proof -
  let ?p = "[''models'', ''v1'', ''model.pkl'']"
  let ?p2 = "[''training-data'', ''model.pkl'']"
  let ?a = "default_args \<lparr> data_path := [''training-data'', ''frames.csv''] \<rparr>"
  let ?m = "main example_libraries counter_generator ?a example_filesystem 0"
  have par: "parent ?p = [''models'', ''v1'']" "parent ?p2 = [''training-data'']"
    by (simp_all add: parent_def)
  have out: "output_path ?a = [''models'', ''frame-importance-model.pkl'']"
    by (simp add: default_args_def)
  have c: "creatable example_filesystem [''models'', ''v1'']"
    "creatable example_filesystem [''training-data'']"
    "creatable example_filesystem [''models'']"
    by (simp_all add: creatable_def example_filesystem_def node_at_def)
  have nd: "\<not> is_dir example_filesystem ?p" "\<not> is_dir example_filesystem ?p2"
    "\<not> is_dir example_filesystem [''models'', ''frame-importance-model.pkl'']"
    by (simp_all add: is_dir_def example_filesystem_def node_at_def)
  note t = model_file_written_with_parents [where L = example_libraries
      and fs = example_filesystem and model = 3 and g = counter_generator and a = ?a and s = 0]
  have "creatable example_filesystem (parent ?p) \<and> \<not> is_dir example_filesystem ?p"
    using c(1) nd(1) par(1) by simp
  with t [where p = ?p, THEN conjunct2, THEN conjunct2, THEN conjunct1]
  obtain out fs' where
    s: "save_model example_libraries example_filesystem 3 ?p = (out, None, fs')"
    by blast
  have r0: "fs' ?p = Some (File (pickled example_libraries 3))"
    using t [where p = ?p and out = out and fs' = fs', THEN conjunct1] s by blast
  have "\<forall>q \<in> set (prefixes (parent ?p)). is_dir fs' q"
    using t [where p = ?p and out = out and fs' = fs', THEN conjunct2, THEN conjunct1]
      s example_well_formed by blast
  then have r1: "is_dir fs' [''models'']" "is_dir fs' [''models'', ''v1'']"
    by (simp_all add: par(1))
  have "creatable example_filesystem (parent ?p2) \<and> \<not> is_dir example_filesystem ?p2"
    using c(2) nd(2) par(2) by simp
  with t [where p = ?p2, THEN conjunct2, THEN conjunct2, THEN conjunct1]
  have r2: "\<exists>out fs'. save_model example_libraries example_filesystem 3 ?p2 = (out, None, fs')"
    by blast
  have ld: "fst (snd (load_training_data example_libraries counter_generator example_filesystem
      (data_path ?a) 0)) = Inr (small_features, small_target)"
    by (simp add: example_load)
  have "\<exists>r. train_test_split counter_generator small_features small_target (test_size ?a) 42 = Inr r"
    by (rule train_test_split_succeeds) (simp_all add: small_features_rows default_args_def)
  then obtain X_train X_test y_train y_test where
    sp: "train_test_split counter_generator small_features small_target (test_size ?a) 42 =
           Inr (X_train, X_test, y_train, y_test)"
    by (metis prod_cases4)
  have ft: "fit example_libraries X_train y_train = Inr (n_rows X_train)"
    by (simp add: example_libraries_def)
  have cw: "creatable example_filesystem (parent (output_path ?a))"
    "\<not> is_dir example_filesystem (output_path ?a)"
    using c(3) nd(3) by (simp_all add: out parent_def)
  have e: "fst (snd ?m) = Exit 0"
    by (rule main_completes [OF ld sp ft cw])
  have r3: "\<exists>b. snd (snd ?m) [''models'', ''frame-importance-model.pkl''] = Some (File b) \<and> b \<noteq> []"
    using t [where p = ?p, THEN conjunct2, THEN conjunct2, THEN conjunct2] e
    unfolding out by blast
  have r4: "\<exists>out fs'. save_model example_libraries example_filesystem 3 ?p = (out, None, fs') \<and>
      fs' ?p = Some (File (pickled example_libraries 3)) \<and>
      is_dir fs' [''models''] \<and> is_dir fs' [''models'', ''v1'']"
    using s r0 r1 by blast
  show ?thesis
    by (intro conjI example_well_formed c(1) c(2) nd(1) nd(2) r4 r2 e r3)
qed




text \<open>
  Claim C7. When scikit-learn or joblib is not installed, the script prints the two
  remediation lines and exits with status 1. When pandas or numpy is not installed, the
  import fails before the \<^verbatim>\<open>try\<close> block is reached: nothing is printed and the script
  ends with the import error uncaught, although the remediation line names both
  packages.
\<close>

theorem imports_outside_the_try:
  "module_imports {''numpy'', ''sklearn'', ''joblib''} =
     ([], Some (Uncaught (ModuleNotFoundError ''pandas''))) \<and>
   module_imports {''pandas'', ''sklearn'', ''joblib''} =
     ([], Some (Uncaught (ModuleNotFoundError ''numpy''))) \<and>
   module_imports {''pandas'', ''numpy'', ''joblib''} =
     ([Text ''Error: Required packages not installed.'',
       Text ''Install with: pip install scikit-learn pandas numpy joblib''],
      Some (Exit 1)) \<and>
   module_imports {''pandas'', ''numpy'', ''sklearn''} =
     ([Text ''Error: Required packages not installed.'',
       Text ''Install with: pip install scikit-learn pandas numpy joblib''],
      Some (Exit 1)) \<and>
   script {''numpy'', ''sklearn'', ''joblib''} example_libraries counter_generator default_args
       example_filesystem 0 =
     ([], Uncaught (ModuleNotFoundError ''pandas''), example_filesystem)"
  by (simp add: module_imports_def import_module_def script_def)

end
